theory Spec2Isabelle
  imports Complex_Main
begin

section \<open>Python values\<close>

text \<open>
  The dictionaries of the program (\<open>Dict[str, Any]\<close>) hold values of any Python type.
  The model keeps the types the planner produces and inspects: \<open>None\<close>, booleans,
  integers, floats (as reals), strings and nested dictionaries.  A dictionary is an
  association list in insertion order with unique keys.  A string is a list of
  characters, one per code point; the accented letters of the program's French
  messages are the Latin-1 code points (\<open>CHR 0xE9\<close> is e-acute, \<open>CHR 0xE0\<close> a-grave,
  \<open>CHR 0xC9\<close> E-acute).
\<close>

datatype pyval =
    PNone
  | PBool bool
  | PInt int
  | PFloat real
  | PStr string
  | PDict "(string \<times> pyval) list"

type_synonym pydict = "(string \<times> pyval) list"

text \<open>\<open>d.get(k)\<close> and \<open>d.get(k, default)\<close>.\<close>

definition dict_get :: "pydict \<Rightarrow> string \<Rightarrow> pyval option" where
  "dict_get d k = map_of d k"

definition dict_get_default :: "pydict \<Rightarrow> string \<Rightarrow> pyval \<Rightarrow> pyval" where
  "dict_get_default d k dflt = (case map_of d k of None \<Rightarrow> dflt | Some v \<Rightarrow> v)"

text \<open>\<open>k in d\<close>.\<close>

definition dict_has :: "pydict \<Rightarrow> string \<Rightarrow> bool" where
  "dict_has d k = (map_of d k \<noteq> None)"

text \<open>\<open>d[k] = v\<close>: an existing key keeps its position, a new key goes last.\<close>

fun dict_set :: "pydict \<Rightarrow> string \<Rightarrow> pyval \<Rightarrow> pydict" where
  "dict_set [] k v = [(k, v)]"
| "dict_set ((k', v') # d) k v =
     (if k' = k then (k, v) # d else (k', v') # dict_set d k v)"

text \<open>Truthiness (\<open>if x\<close>, \<open>not x\<close>).\<close>

fun py_truthy :: "pyval \<Rightarrow> bool" where
  "py_truthy PNone = False"
| "py_truthy (PBool b) = b"
| "py_truthy (PInt i) = (i \<noteq> 0)"
| "py_truthy (PFloat r) = (r \<noteq> 0)"
| "py_truthy (PStr s) = (s \<noteq> [])"
| "py_truthy (PDict d) = (d \<noteq> [])"

text \<open>Decimal rendering of a natural number and of an integer, as \<open>str\<close> gives it.\<close>

function str_nat :: "nat \<Rightarrow> string" where
  "str_nat n =
     (if n < 10 then [char_of (48 + n)]
      else str_nat (n div 10) @ [char_of (48 + n mod 10)])"
  by pat_completeness auto
termination
  by (relation "measure (\<lambda>n. n)") auto

declare str_nat.simps [simp del]

definition str_int :: "int \<Rightarrow> string" where
  "str_int i = (if i < 0 then CHR ''-'' # str_nat (nat (- i)) else str_nat (nat i))"

text \<open>
  \<open>str(x)\<close> and the formatting of \<open>x\<close> inside an f-string.  The rendering of floats
  and of dictionaries is not defined by the model; it is the parameter \<open>py_repr\<close>.
\<close>

fun py_str :: "(pyval \<Rightarrow> string) \<Rightarrow> pyval \<Rightarrow> string" where
  "py_str py_repr PNone = ''None''"
| "py_str py_repr (PBool b) = (if b then ''True'' else ''False'')"
| "py_str py_repr (PInt i) = str_int i"
| "py_str py_repr (PStr s) = s"
| "py_str py_repr (PFloat r) = py_repr (PFloat r)"
| "py_str py_repr (PDict d) = py_repr (PDict d)"

text \<open>The name \<open>type(x).__name__\<close>, as the interpreter's error messages print it.\<close>

fun py_type_name :: "pyval \<Rightarrow> string" where
  "py_type_name PNone = ''NoneType''"
| "py_type_name (PBool b) = ''bool''"
| "py_type_name (PInt i) = ''int''"
| "py_type_name (PFloat r) = ''float''"
| "py_type_name (PStr s) = ''str''"
| "py_type_name (PDict d) = ''dict''"

text \<open>
  Exceptions, by class, with the message \<open>str(e)\<close> gives.  The messages of the
  interpreter's own \<open>TypeError\<close>s are those of CPython 3.11.
\<close>

datatype exn =
    PlannerError string
  | PlanGenerationError string
  | DesktopAgentError string
  | SkillError string
  | TypeError string
  | KeyError string
  | NameError string
  | OverflowError string
  | Exception string

fun exn_str :: "exn \<Rightarrow> string" where
  "exn_str (PlannerError m) = m"
| "exn_str (PlanGenerationError m) = m"
| "exn_str (DesktopAgentError m) = m"
| "exn_str (SkillError m) = m"
| "exn_str (TypeError m) = m"
| "exn_str (KeyError m) = m"
| "exn_str (NameError m) = m"
| "exn_str (OverflowError m) = m"
| "exn_str (Exception m) = m"

text \<open>\<open>len(x)\<close>.\<close>

fun py_len :: "pyval \<Rightarrow> exn + nat" where
  "py_len (PStr s) = Inr (length s)"
| "py_len (PDict d) = Inr (length d)"
| "py_len v = Inl (TypeError (''object of type '' @ [CHR 0x27] @ py_type_name v @ [CHR 0x27] @ '' has no len()''))"

section \<open>Data model (packages/common/models.py)\<close>

datatype StepStatus = PENDING | RUNNING | SUCCESS | FAILED | SKIPPED

text \<open>
  \<open>StepResult\<close>.  The wall-clock fields \<open>start_time\<close>/\<open>end_time\<close> and the two
  screenshot fields are never read by the code modelled here and are left out.
\<close>

record StepResult =
  step_id :: string
  status :: StepStatus
  error_message :: "string option"
  step_output :: "pyval option"

datatype IntentType =
  OPEN_APP | FOCUS_APP | CLICK_TEXT | TYPE_TEXT | SAVE_FILE | WEB_SEARCH | WRITE_TEXT_FILE | UNKNOWN

fun IntentType_value :: "IntentType \<Rightarrow> string" where
  "IntentType_value IntentType.OPEN_APP = ''open_app''"
| "IntentType_value IntentType.FOCUS_APP = ''focus_app''"
| "IntentType_value IntentType.CLICK_TEXT = ''click_text''"
| "IntentType_value IntentType.TYPE_TEXT = ''type_text''"
| "IntentType_value IntentType.SAVE_FILE = ''save_file''"
| "IntentType_value IntentType.WEB_SEARCH = ''web_search''"
| "IntentType_value IntentType.WRITE_TEXT_FILE = ''write_text_file''"
| "IntentType_value IntentType.UNKNOWN = ''unknown''"

record Intent =
  intent_type :: IntentType
  confidence :: real
  slots :: pydict
  original_text :: string
  normalized_text :: "string option"

datatype ActionType =
  MOVE_MOUSE | CLICK | DOUBLE_CLICK | RIGHT_CLICK | TYPE_TEXT | KEY_PRESS | HOTKEY | SCROLL
  | WAIT | SCREENSHOT

record Action =
  action_type :: ActionType
  parameters :: pydict
  description :: string
  timeout :: real

record Plan =
  plan_id :: string
  intent :: Intent
  actions :: "Action list"
  summary :: string
  requires_confirmation :: bool
  estimated_duration :: real
  risk_level :: string

text \<open>\<open>ExecutionSession.success_rate\<close>, a property of the list of step results.\<close>

definition success_rate :: "StepResult list \<Rightarrow> real" where
  "success_rate step_results =
     (if step_results = [] then 0.0
      else real (length (filter (\<lambda>r. status r = SUCCESS) step_results))
           / real (length step_results))"

section \<open>Guardrail rules (packages/planner/guardrails.py)\<close>

text \<open>
  The dictionary a rule's \<open>check\<close> returns: \<open>passed\<close> and \<open>message\<close> are always
  read by the engine, \<open>details\<close> is optional.
\<close>

record rule_result =
  passed :: bool
  message :: string
  details :: "pydict option"

text \<open>
  \<open>RateLimitRule\<close>: the state of the rule object.  \<open>time.time()\<close> is a float; the
  timestamps are modelled as reals.
\<close>

record RateLimitRule =
  execution_history :: "real list"
  max_executions_per_minute :: int

definition RateLimitRule_init :: RateLimitRule where
  "RateLimitRule_init = \<lparr>execution_history = [], max_executions_per_minute = 10\<rparr>"

text \<open>
  \<open>RateLimitRule.check\<close>; \<open>current_time\<close> is the value \<open>time.time()\<close> returns in
  this call.  The plan and the context are not used by the rule.
\<close>

definition RateLimitRule_check :: "real \<Rightarrow> RateLimitRule \<Rightarrow> rule_result \<times> RateLimitRule" where
  "RateLimitRule_check current_time self =
     (let history = filter (\<lambda>timestamp. current_time - timestamp < 60) (execution_history self);
          self1 = self\<lparr>execution_history := history\<rparr>
      in if int (length history) \<ge> max_executions_per_minute self1 then
           (\<lparr>passed = False,
             message = ''Limite de taux d'' @ [CHR 0xE9] @ ''pass'' @ [CHR 0xE9] @ ''e: ''
                       @ str_nat (length history)
                       @ '' ex'' @ [CHR 0xE9] @ ''cutions dans la derni'' @ [CHR 0xE8] @ ''re minute'',
             details = Some [(''current_count'', PInt (int (length history))),
                             (''limit'', PInt (max_executions_per_minute self1))]\<rparr>,
            self1)
         else
           (\<lparr>passed = True,
             message = ''Limite de taux respect'' @ [CHR 0xE9] @ ''e'',
             details = None\<rparr>,
            self1\<lparr>execution_history := history @ [current_time]\<rparr>))"

text \<open>
  A sequence of calls of \<open>check\<close> on one rule object, one per clock reading:
  the list of the \<open>passed\<close> flags and the state left behind.
\<close>

fun RateLimitRule_checks :: "real list \<Rightarrow> RateLimitRule \<Rightarrow> bool list \<times> RateLimitRule" where
  "RateLimitRule_checks [] self = ([], self)"
| "RateLimitRule_checks (t # ts) self =
     (let (r, self1) = RateLimitRule_check t self;
          (rs, self2) = RateLimitRule_checks ts self1
      in (passed r # rs, self2))"

subsection \<open>The engine\<close>

text \<open>
  A \<open>GuardrailRule\<close> object.  Rules are polymorphic and may own mutable state and
  read the clock (\<open>RateLimitRule\<close> does both): \<open>check\<close> takes the plan, the context
  and the state \<open>'w\<close> of everything the rules can touch, and returns that state
  updated, with either the result dictionary or the exception the call raised.  A
  result dictionary without \<open>passed\<close> or \<open>message\<close> makes the engine's lookup raise
  \<open>KeyError\<close> inside the same \<open>try\<close>; such a rule is one whose \<open>check\<close> raises.
\<close>

record 'w GuardrailRule =
  rule_name :: string
  rule_description :: string
  severity :: string
  applies_to :: "IntentType list"
  check :: "Plan \<Rightarrow> pydict option \<Rightarrow> 'w \<Rightarrow> (exn + rule_result) \<times> 'w"

text \<open>
  An entry of \<open>rule_results\<close>, \<open>errors\<close>, \<open>warnings\<close> and \<open>info\<close>.  The entry
  built for a rule that raised has no \<open>description\<close> key.
\<close>

record rule_info =
  ri_rule_name :: string
  ri_description :: "string option"
  ri_severity :: string
  ri_passed :: bool
  ri_message :: string
  ri_details :: pydict

text \<open>The dictionary \<open>check_plan\<close> returns.\<close>

record security_check =
  overall_passed :: bool
  can_execute :: bool
  sc_requires_confirmation :: bool
  rule_results :: "rule_info list"
  sc_errors :: "rule_info list"
  sc_warnings :: "rule_info list"
  sc_info :: "rule_info list"

definition is_rule_applicable :: "'w GuardrailRule \<Rightarrow> Plan \<Rightarrow> bool" where
  "is_rule_applicable rule plan =
     (if applies_to rule = [] then True
      else intent_type (intent plan) \<in> set (applies_to rule))"

text \<open>The body of the loop of \<open>check_plan\<close> for one applicable rule.\<close>

definition check_rule ::
  "'w GuardrailRule \<Rightarrow> Plan \<Rightarrow> pydict option \<Rightarrow> security_check \<Rightarrow> 'w \<Rightarrow> security_check \<times> 'w" where
  "check_rule rule plan context results w =
     (case check rule plan context w of
        (Inr rule_result, w1) \<Rightarrow>
          (let rule_info = \<lparr>ri_rule_name = rule_name rule,
                             ri_description = Some (rule_description rule),
                             ri_severity = severity rule,
                             ri_passed = passed rule_result,
                             ri_message = message rule_result,
                             ri_details = (case details rule_result of None \<Rightarrow> [] | Some d \<Rightarrow> d)\<rparr>;
               results1 = results\<lparr>rule_results := rule_results results @ [rule_info]\<rparr>
           in if \<not> passed rule_result then
                if severity rule \<in> set [''error'', ''critical''] then
                  (let results2 = results1\<lparr>sc_errors := sc_errors results1 @ [rule_info],
                                            overall_passed := False\<rparr>
                   in if severity rule = ''critical''
                      then (results2\<lparr>can_execute := False\<rparr>, w1)
                      else (results2, w1))
                else if severity rule = ''warning'' then
                  (results1\<lparr>sc_warnings := sc_warnings results1 @ [rule_info],
                             sc_requires_confirmation := True\<rparr>, w1)
                else
                  (results1\<lparr>sc_info := sc_info results1 @ [rule_info]\<rparr>, w1)
              else (results1, w1))
      | (Inl e, w1) \<Rightarrow>
          (let error_info = \<lparr>ri_rule_name = rule_name rule,
                              ri_description = None,
                              ri_severity = ''error'',
                              ri_passed = False,
                              ri_message = ''Erreur v'' @ [CHR 0xE9] @ ''rification: '' @ exn_str e,
                              ri_details = [(''exception'', PStr (exn_str e))]\<rparr>
           in (results\<lparr>rule_results := rule_results results @ [error_info],
                        sc_errors := sc_errors results @ [error_info],
                        overall_passed := False\<rparr>, w1)))"

text \<open>The loop over \<open>self._rules\<close>, in registration order.\<close>

fun check_rules ::
  "'w GuardrailRule list \<Rightarrow> Plan \<Rightarrow> pydict option \<Rightarrow> security_check \<Rightarrow> 'w \<Rightarrow> security_check \<times> 'w" where
  "check_rules [] plan context results w = (results, w)"
| "check_rules (rule # rules) plan context results w =
     (if is_rule_applicable rule plan then
        (case check_rule rule plan context results w of
           (results1, w1) \<Rightarrow> check_rules rules plan context results1 w1)
      else check_rules rules plan context results w)"

definition initial_results :: "Plan \<Rightarrow> security_check" where
  "initial_results plan =
     \<lparr>overall_passed = True,
      can_execute = True,
      sc_requires_confirmation = requires_confirmation plan,
      rule_results = [],
      sc_errors = [],
      sc_warnings = [],
      sc_info = []\<rparr>"

text \<open>
  \<open>GuardrailsEngine.check_plan\<close>.  Every call of a rule is inside the inner \<open>try\<close>;
  what remains outside (logging, the applicability test) does not raise, so the
  outer handler of the source is never entered and is not part of the model.
\<close>

definition check_plan ::
  "'w GuardrailRule list \<Rightarrow> Plan \<Rightarrow> pydict option \<Rightarrow> 'w \<Rightarrow> security_check \<times> 'w" where
  "check_plan rules plan context w = check_rules rules plan context (initial_results plan) w"

section \<open>Skill registry (packages/skills/skill_manager.py)\<close>

text \<open>
  The planner uses the skill manager for three things: whether a skill of a given
  name is registered, the skill object itself, and the skill's own
  \<open>validate_parameters\<close>, which belongs to the concrete skill and is modelled as a
  function that returns a boolean or raises.
\<close>

record Skill =
  validate_parameters :: "pyval \<Rightarrow> exn + bool"

record SkillManager =
  skills :: "string \<Rightarrow> Skill option"

text \<open>
  \<open>SkillManager.get_skill\<close>, a dictionary lookup \<open>self._skills.get(name)\<close>.  The keys
  are strings; a dictionary used as key is unhashable and makes the lookup raise.
\<close>

fun get_skill :: "SkillManager \<Rightarrow> pyval \<Rightarrow> exn + Skill option" where
  "get_skill sm (PStr name) = Inr (skills sm name)"
| "get_skill sm (PDict d) = Inl (TypeError (''unhashable type: '' @ [CHR 0x27] @ ''dict'' @ [CHR 0x27]))"
| "get_skill sm v = Inr None"

text \<open>
  \<open>SkillManager.get_skill_info\<close> returns a non-empty dictionary for a registered skill
  and \<open>None\<close> otherwise; the planner only tests the result for truth.
\<close>

definition get_skill_info :: "SkillManager \<Rightarrow> string \<Rightarrow> bool" where
  "get_skill_info sm name = (skills sm name \<noteq> None)"

section \<open>Plan generator (packages/planner/plan_generator.py)\<close>

text \<open>\<open>sub in s\<close> and \<open>s.replace(old, new)\<close> on strings.\<close>

fun py_contains :: "string \<Rightarrow> string \<Rightarrow> bool" where
  "py_contains sub [] = (sub = [])"
| "py_contains sub (c # cs) = (take (length sub) (c # cs) = sub \<or> py_contains sub cs)"

function replace_from :: "string \<Rightarrow> string \<Rightarrow> string \<Rightarrow> string" where
  "replace_from old new [] = []"
| "replace_from old new (c # cs) =
     (if old \<noteq> [] \<and> take (length old) (c # cs) = old
      then new @ replace_from old new (drop (length old) (c # cs))
      else c # replace_from old new cs)"
  by pat_completeness auto
termination
  by (relation "measure (\<lambda>(old, new, s). length s)") auto

definition py_replace :: "string \<Rightarrow> string \<Rightarrow> string \<Rightarrow> string" where
  "py_replace old new s =
     (if old = [] then new @ concat (map (\<lambda>c. c # new) s) else replace_from old new s)"

text \<open>
  What the interpreter and the file system provide: the rendering of floats and
  dictionaries by \<open>str\<close>, and whether \<open>Path(path).resolve()\<close> lies under one of the
  resolved allowed write paths (or the exception raised on the way).
\<close>

record Runtime =
  repr :: "pyval \<Rightarrow> string"
  path_is_allowed :: "string list \<Rightarrow> pyval \<Rightarrow> exn + bool"

record SecurityConfig =
  require_confirmation_for_write :: bool
  allowed_write_paths :: "string list"

text \<open>
  An action blueprint of a template: a dictionary with the optional keys \<open>type\<close>,
  \<open>skill\<close>, \<open>description\<close> and \<open>parameters\<close>.
\<close>

record action_def =
  d_type :: "ActionType option"
  d_skill :: "string option"
  d_description :: "string option"
  d_parameters :: "pydict option"

record PlanTemplate =
  t_intent_type :: IntentType
  t_actions :: "action_def list"
  t_requires_confirmation :: bool
  t_estimated_duration :: real
  t_risk_level :: string

text \<open>\<open>PlanGenerator._initialize_templates\<close>: the dictionary of the seven templates.\<close>

fun initialize_templates :: "IntentType \<Rightarrow> PlanTemplate option" where
  "initialize_templates IntentType.OPEN_APP = Some
     \<lparr>t_intent_type = IntentType.OPEN_APP,
      t_actions =
        [\<lparr>d_type = Some ActionType.SCREENSHOT, d_skill = None,
          d_description = Some (''Capture d'' @ [CHR 0x27, CHR 0xE9] @ ''tat initial''), d_parameters = None\<rparr>,
         \<lparr>d_type = None, d_skill = Some ''open_app'',
          d_description = Some (''Ouverture de l'' @ [CHR 0x27] @ ''application {app_name}''), d_parameters = None\<rparr>,
         \<lparr>d_type = Some ActionType.WAIT, d_skill = None,
          d_description = Some (''Attente du lancement de l'' @ [CHR 0x27] @ ''application''),
          d_parameters = Some [(''duration'', PFloat 2.0)]\<rparr>],
      t_requires_confirmation = False, t_estimated_duration = 5.0, t_risk_level = ''low''\<rparr>"
| "initialize_templates IntentType.FOCUS_APP = Some
     \<lparr>t_intent_type = IntentType.FOCUS_APP,
      t_actions =
        [\<lparr>d_type = None, d_skill = Some ''focus_app'',
          d_description = Some (''Focus sur l'' @ [CHR 0x27] @ ''application {app_name}''), d_parameters = None\<rparr>],
      t_requires_confirmation = False, t_estimated_duration = 2.0, t_risk_level = ''low''\<rparr>"
| "initialize_templates IntentType.CLICK_TEXT = Some
     \<lparr>t_intent_type = IntentType.CLICK_TEXT,
      t_actions =
        [\<lparr>d_type = Some ActionType.SCREENSHOT, d_skill = None,
          d_description = Some (''Capture pour localiser le texte''), d_parameters = None\<rparr>,
         \<lparr>d_type = None, d_skill = Some ''click_text'',
          d_description = Some (''Clic sur '' @ [CHR 0x27] @ ''{text}'' @ [CHR 0x27]), d_parameters = None\<rparr>],
      t_requires_confirmation = False, t_estimated_duration = 3.0, t_risk_level = ''low''\<rparr>"
| "initialize_templates IntentType.TYPE_TEXT = Some
     \<lparr>t_intent_type = IntentType.TYPE_TEXT,
      t_actions =
        [\<lparr>d_type = None, d_skill = Some ''type_text'',
          d_description = Some (''Saisie du texte''), d_parameters = None\<rparr>],
      t_requires_confirmation = False, t_estimated_duration = 2.0, t_risk_level = ''low''\<rparr>"
| "initialize_templates IntentType.SAVE_FILE = Some
     \<lparr>t_intent_type = IntentType.SAVE_FILE,
      t_actions =
        [\<lparr>d_type = None, d_skill = Some ''save_file'',
          d_description = Some (''Sauvegarde du fichier''), d_parameters = None\<rparr>],
      t_requires_confirmation = True, t_estimated_duration = 3.0, t_risk_level = ''medium''\<rparr>"
| "initialize_templates IntentType.WEB_SEARCH = Some
     \<lparr>t_intent_type = IntentType.WEB_SEARCH,
      t_actions =
        [\<lparr>d_type = None, d_skill = Some ''open_app'',
          d_description = Some (''Ouverture du navigateur''),
          d_parameters = Some [(''app_name'', PStr ''Google Chrome'')]\<rparr>,
         \<lparr>d_type = Some ActionType.WAIT, d_skill = None,
          d_description = Some (''Attente du chargement du navigateur''),
          d_parameters = Some [(''duration'', PFloat 3.0)]\<rparr>,
         \<lparr>d_type = None, d_skill = Some ''click_text'',
          d_description = Some (''Clic sur la barre d'' @ [CHR 0x27] @ ''adresse''),
          d_parameters = Some [(''text'', PStr ''address bar''), (''fuzzy'', PBool True)]\<rparr>,
         \<lparr>d_type = None, d_skill = Some ''type_text'',
          d_description = Some (''Saisie de l'' @ [CHR 0x27] @ ''URL de recherche''),
          d_parameters = Some [(''text'', PStr ''https://www.google.com/search?q={query}'')]\<rparr>,
         \<lparr>d_type = Some ActionType.KEY_PRESS, d_skill = None,
          d_description = Some (''Validation de la recherche''),
          d_parameters = Some [(''key'', PStr ''enter'')]\<rparr>],
      t_requires_confirmation = False, t_estimated_duration = 8.0, t_risk_level = ''low''\<rparr>"
| "initialize_templates IntentType.WRITE_TEXT_FILE = Some
     \<lparr>t_intent_type = IntentType.WRITE_TEXT_FILE,
      t_actions =
        [\<lparr>d_type = None, d_skill = Some ''write_text_file'',
          d_description = Some (''Cr'' @ [CHR 0xE9] @ ''ation et '' @ [CHR 0xE9] @ ''criture du fichier texte''), d_parameters = None\<rparr>],
      t_requires_confirmation = True, t_estimated_duration = 5.0, t_risk_level = ''medium''\<rparr>"
| "initialize_templates IntentType.UNKNOWN = None"

text \<open>The fields of a \<open>PlanGenerator\<close> object.\<close>

record PlanGenerator =
  settings :: SecurityConfig
  skill_manager :: SkillManager
  templates :: "IntentType \<Rightarrow> PlanTemplate option"

definition PlanGenerator_init :: "SecurityConfig \<Rightarrow> SkillManager \<Rightarrow> PlanGenerator" where
  "PlanGenerator_init security sm =
     \<lparr>settings = security, skill_manager = sm, templates = initialize_templates\<rparr>"

text \<open>
  The substitution loop of \<open>_process_action_definition\<close>: for every slot, in order,
  the placeholder \<open>{key}\<close> is replaced by \<open>str(value)\<close> when it occurs.
\<close>

fun substitute_slots :: "Runtime \<Rightarrow> pydict \<Rightarrow> string \<Rightarrow> string" where
  "substitute_slots rt [] s = s"
| "substitute_slots rt ((key, value) # slots') s =
     (let placeholder = ''{'' @ key @ ''}''
      in substitute_slots rt slots'
           (if py_contains placeholder s then py_replace placeholder (py_str (repr rt) value) s
            else s))"

definition process_action_definition ::
  "Runtime \<Rightarrow> PlanGenerator \<Rightarrow> action_def \<Rightarrow> pydict \<Rightarrow> pydict option \<Rightarrow> action_def" where
  "process_action_definition rt self action_def slots' context =
     (let processed = action_def;
          processed1 =
            (case d_description processed of
               Some descr \<Rightarrow>
                 processed\<lparr>d_description := Some (substitute_slots rt slots' descr)\<rparr>
             | None \<Rightarrow> processed);
          processed2 =
            (case d_parameters processed1 of
               Some params \<Rightarrow>
                 processed1\<lparr>d_parameters := Some
                   (map (\<lambda>(param_key, param_value).
                           case param_value of
                             PStr s \<Rightarrow> (param_key, PStr (substitute_slots rt slots' s))
                           | _ \<Rightarrow> (param_key, param_value))
                        params)\<rparr>
             | None \<Rightarrow> processed1)
      in case d_skill processed2 of
           Some skill_name \<Rightarrow>
             (let processed3 =
                    (if d_parameters processed2 = None
                     then processed2\<lparr>d_parameters := Some []\<rparr> else processed2)
              in if get_skill_info (skill_manager self) skill_name then
                   processed3\<lparr>d_parameters := Some
                     (foldl (\<lambda>ps (slot_key, slot_value). dict_set ps slot_key slot_value)
                            (case d_parameters processed3 of Some ps \<Rightarrow> ps | None \<Rightarrow> [])
                            slots')\<rparr>
                 else processed3)
         | None \<Rightarrow> processed2)"

text \<open>
  The body of the loop of \<open>_generate_actions_from_template\<close>: the action built from
  one blueprint, or the exception that makes the loop skip the blueprint.  A skill
  action gets the placeholder type \<open>SCREENSHOT\<close>.  \<open>timeout\<close> takes its default 5.0.
\<close>

definition make_action ::
  "Runtime \<Rightarrow> PlanGenerator \<Rightarrow> action_def \<Rightarrow> pydict \<Rightarrow> pydict option \<Rightarrow> exn + Action" where
  "make_action rt self action_def slots' context =
     (let processed_action = process_action_definition rt self action_def slots' context
      in case d_skill processed_action of
           Some skill \<Rightarrow>
             (case d_description processed_action of
                None \<Rightarrow> Inl (KeyError ([CHR 0x27] @ ''description'' @ [CHR 0x27]))
              | Some descr \<Rightarrow>
                  Inr \<lparr>action_type = ActionType.SCREENSHOT,
                       parameters =
                         [(''skill_name'', PStr skill),
                          (''skill_parameters'',
                           PDict (case d_parameters processed_action of Some ps \<Rightarrow> ps | None \<Rightarrow> []))],
                       description = descr,
                       timeout = 5.0\<rparr>)
         | None \<Rightarrow>
             (case d_type processed_action of
                None \<Rightarrow> Inl (KeyError ([CHR 0x27] @ ''type'' @ [CHR 0x27]))
              | Some ty \<Rightarrow>
                  (case d_description processed_action of
                     None \<Rightarrow> Inl (KeyError ([CHR 0x27] @ ''description'' @ [CHR 0x27]))
                   | Some descr \<Rightarrow>
                       Inr \<lparr>action_type = ty,
                            parameters =
                              (case d_parameters processed_action of Some ps \<Rightarrow> ps | None \<Rightarrow> []),
                            description = descr,
                            timeout = 5.0\<rparr>)))"

fun generate_actions_from_template ::
  "Runtime \<Rightarrow> PlanGenerator \<Rightarrow> action_def list \<Rightarrow> pydict \<Rightarrow> pydict option \<Rightarrow> Action list" where
  "generate_actions_from_template rt self [] slots' context = []"
| "generate_actions_from_template rt self (action_def # defs) slots' context =
     (case make_action rt self action_def slots' context of
        Inr action \<Rightarrow> action # generate_actions_from_template rt self defs slots' context
      | Inl e \<Rightarrow> generate_actions_from_template rt self defs slots' context)"

text \<open>
  \<open>x[:50]\<close>: a string is cut to its first 50 characters; the other values cannot be
  sliced.
\<close>

fun py_slice_50 :: "pyval \<Rightarrow> exn + pyval" where
  "py_slice_50 (PStr s) = Inr (PStr (take 50 s))"
| "py_slice_50 (PDict d) = Inl (TypeError (''unhashable type: '' @ [CHR 0x27] @ ''slice'' @ [CHR 0x27]))"
| "py_slice_50 v = Inl (TypeError ([CHR 0x27] @ py_type_name v @ [CHR 0x27] @ '' object is not subscriptable''))"

text \<open>
  \<open>_generate_plan_summary\<close>.  The dictionary of summaries is built before the lookup, so
  every f-string in it is evaluated whatever the intent type is; the only one that can
  raise is the slice of the \<open>text\<close> slot.
\<close>

definition generate_plan_summary :: "Runtime \<Rightarrow> Intent \<Rightarrow> Action list \<Rightarrow> exn + string" where
  "generate_plan_summary rt intent' actions' =
     (case py_slice_50 (dict_get_default (slots intent') ''text'' (PStr [])) of
        Inl e \<Rightarrow> Inl e
      | Inr text_50 \<Rightarrow>
          (let base_summary =
                 (case intent_type intent' of
                    IntentType.OPEN_APP \<Rightarrow>
                      ''Ouvrir l'' @ [CHR 0x27] @ ''application ''
                      @ py_str (repr rt) (dict_get_default (slots intent') ''app_name'' (PStr ''inconnue''))
                  | IntentType.FOCUS_APP \<Rightarrow>
                      ''Mettre le focus sur ''
                      @ py_str (repr rt) (dict_get_default (slots intent') ''app_name'' (PStr ''inconnue''))
                  | IntentType.CLICK_TEXT \<Rightarrow>
                      ''Cliquer sur '' @ [CHR 0x27]
                      @ py_str (repr rt) (dict_get_default (slots intent') ''text'' (PStr ''texte''))
                      @ [CHR 0x27]
                  | IntentType.TYPE_TEXT \<Rightarrow>
                      ''Saisir le texte: '' @ py_str (repr rt) text_50 @ ''...''
                  | IntentType.SAVE_FILE \<Rightarrow> ''Sauvegarder le fichier actuel''
                  | IntentType.WEB_SEARCH \<Rightarrow>
                      ''Rechercher '' @ [CHR 0x27]
                      @ py_str (repr rt) (dict_get_default (slots intent') ''query'' (PStr (''requ'' @ [CHR 0xEA] @ ''te'')))
                      @ [CHR 0x27] @ '' sur Google''
                  | IntentType.WRITE_TEXT_FILE \<Rightarrow> ''Cr'' @ [CHR 0xE9] @ ''er un fichier texte avec le contenu sp'' @ [CHR 0xE9] @ ''cifi'' @ [CHR 0xE9]
                  | IntentType.UNKNOWN \<Rightarrow> ''Ex'' @ [CHR 0xE9] @ ''cuter '' @ IntentType_value (intent_type intent'))
           in Inr (if length actions' > 1
                   then base_summary @ '' (en '' @ str_nat (length actions') @ '' '' @ [CHR 0xE9] @ ''tapes)''
                   else base_summary)))"

definition should_require_confirmation ::
  "Runtime \<Rightarrow> PlanGenerator \<Rightarrow> PlanTemplate \<Rightarrow> pydict \<Rightarrow> bool" where
  "should_require_confirmation rt self template slots' =
     (if t_requires_confirmation template then True
      else if t_intent_type template \<in> set [IntentType.SAVE_FILE, IntentType.WRITE_TEXT_FILE] then
        (if require_confirmation_for_write (settings self) then True
         else
           (let path = dict_get_default slots' ''path'' (PStr [])
            in if py_truthy path then
                 (case path_is_allowed rt (allowed_write_paths (settings self)) path of
                    Inr is_allowed \<Rightarrow> (if \<not> is_allowed then True else False)
                  | Inl e \<Rightarrow> True)
               else False))
      else False)"

definition estimate_duration :: "PlanTemplate \<Rightarrow> pydict \<Rightarrow> exn + real" where
  "estimate_duration template slots' =
     (let base_duration = t_estimated_duration template
      in if t_intent_type template = IntentType.TYPE_TEXT then
           (case py_len (dict_get_default slots' ''text'' (PStr [])) of
              Inl e \<Rightarrow> Inl e
            | Inr n \<Rightarrow> Inr (base_duration + real n * 0.01))
         else if t_intent_type template = IntentType.WRITE_TEXT_FILE then
           (case py_len (dict_get_default slots' ''content'' (PStr [])) of
              Inl e \<Rightarrow> Inl e
            | Inr n \<Rightarrow>
                (let base_duration1 = base_duration + real n * 0.01
                 in if py_truthy (dict_get_default slots' ''path'' PNone)
                    then Inr (base_duration1 + 2.0) else Inr base_duration1))
         else Inr base_duration)"

text \<open>
  \<open>generate_plan\<close>.  \<open>new_id\<close> is the identifier \<open>uuid4()\<close> gives the new plan.  Every
  exception raised inside the \<open>try\<close>, the \<open>PlanGenerationError\<close> for a missing template
  included, is caught and raised again as a \<open>PlanGenerationError\<close> that quotes it.
\<close>

definition generate_plan_body ::
  "Runtime \<Rightarrow> PlanGenerator \<Rightarrow> Intent \<Rightarrow> pydict option \<Rightarrow> string \<Rightarrow> exn + Plan" where
  "generate_plan_body rt self intent' context new_id =
     (case templates self (intent_type intent') of
        None \<Rightarrow> Inl (PlanGenerationError (''Pas de template pour '' @ IntentType_value (intent_type intent')))
      | Some template \<Rightarrow>
          (let actions' = generate_actions_from_template rt self (t_actions template) (slots intent') context
           in case generate_plan_summary rt intent' actions' of
                Inl e \<Rightarrow> Inl e
              | Inr summary' \<Rightarrow>
                  (let requires_confirmation' = should_require_confirmation rt self template (slots intent')
                   in case estimate_duration template (slots intent') of
                        Inl e \<Rightarrow> Inl e
                      | Inr estimated_duration' \<Rightarrow>
                          Inr \<lparr>plan_id = new_id,
                               intent = intent',
                               actions = actions',
                               summary = summary',
                               requires_confirmation = requires_confirmation',
                               estimated_duration = estimated_duration',
                               risk_level = t_risk_level template\<rparr>)))"

definition generate_plan ::
  "Runtime \<Rightarrow> PlanGenerator \<Rightarrow> Intent \<Rightarrow> pydict option \<Rightarrow> string \<Rightarrow> exn + Plan" where
  "generate_plan rt self intent' context new_id =
     (case generate_plan_body rt self intent' context new_id of
        Inr plan \<Rightarrow> Inr plan
      | Inl e \<Rightarrow> Inl (PlanGenerationError (''Erreur g'' @ [CHR 0xE9] @ ''n'' @ [CHR 0xE9] @ ''ration plan: '' @ exn_str e)))"

subsection \<open>Optimisation\<close>

text \<open>The first loop of \<open>optimize_plan\<close>; \<open>optimized_actions\<close> is the list built so far.\<close>

fun drop_consecutive_screenshots :: "Action list \<Rightarrow> Action list \<Rightarrow> Action list" where
  "drop_consecutive_screenshots [] optimized_actions = optimized_actions"
| "drop_consecutive_screenshots (action # rest) optimized_actions =
     (if action_type action = ActionType.SCREENSHOT \<and> optimized_actions \<noteq> []
         \<and> action_type (last optimized_actions) = ActionType.SCREENSHOT
      then drop_consecutive_screenshots rest optimized_actions
      else drop_consecutive_screenshots rest (optimized_actions @ [action]))"

text \<open>
  The conversion of a Python int to a float, which \<open>+\<close> performs when the other operand
  is a float: an int that rounds beyond the largest float (from \<open>2 ^ 1024 - 2 ^ 970\<close>
  on, in absolute value) raises \<open>OverflowError\<close>.
\<close>

definition py_int_to_float :: "int \<Rightarrow> exn + real" where
  "py_int_to_float i =
     (if \<bar>i\<bar> \<ge> 2 ^ 1024 - 2 ^ 970
      then Inl (OverflowError ''int too large to convert to float'')
      else Inr (real_of_int i))"

text \<open>\<open>a + b\<close>.\<close>

fun py_add :: "pyval \<Rightarrow> pyval \<Rightarrow> exn + pyval" where
  "py_add (PStr a) (PStr b) = Inr (PStr (a @ b))"
| "py_add (PStr a) v =
     Inl (TypeError (''can only concatenate str (not '' @ [CHR 0x22] @ py_type_name v @ [CHR 0x22] @ '') to str''))"
| "py_add (PBool a) (PBool b) = Inr (PInt (of_bool a + of_bool b))"
| "py_add (PBool a) (PInt b) = Inr (PInt (of_bool a + b))"
| "py_add (PBool a) (PFloat b) = Inr (PFloat (of_bool a + b))"
| "py_add (PInt a) (PBool b) = Inr (PInt (a + of_bool b))"
| "py_add (PInt a) (PInt b) = Inr (PInt (a + b))"
| "py_add (PInt a) (PFloat b) =
     (case py_int_to_float a of Inl e \<Rightarrow> Inl e | Inr x \<Rightarrow> Inr (PFloat (x + b)))"
| "py_add (PFloat a) (PBool b) = Inr (PFloat (a + of_bool b))"
| "py_add (PFloat a) (PInt b) =
     (case py_int_to_float b of Inl e \<Rightarrow> Inl e | Inr x \<Rightarrow> Inr (PFloat (a + x)))"
| "py_add (PFloat a) (PFloat b) = Inr (PFloat (a + b))"
| "py_add u v =
     Inl (TypeError (''unsupported operand type(s) for +: '' @ [CHR 0x27] @ py_type_name u @ [CHR 0x27] @ '' and '' @ [CHR 0x27]
                     @ py_type_name v @ [CHR 0x27]))"

text \<open>The action that replaces two consecutive \<open>TYPE_TEXT\<close> actions.\<close>

definition merged_action :: "Action \<Rightarrow> Action \<Rightarrow> exn + Action" where
  "merged_action current_action next_action =
     (case py_add (dict_get_default (parameters current_action) ''text'' (PStr []))
                  (dict_get_default (parameters next_action) ''text'' (PStr [])) of
        Inl e \<Rightarrow> Inl e
      | Inr combined_text \<Rightarrow>
          (case py_len combined_text of
             Inl e \<Rightarrow> Inl e
           | Inr n \<Rightarrow>
               Inr \<lparr>action_type = ActionType.TYPE_TEXT,
                    parameters = [(''text'', combined_text)],
                    description = ''Saisie combin'' @ [CHR 0xE9] @ ''e de texte ('' @ str_nat n @ '' caract'' @ [CHR 0xE8] @ ''res)'',
                    timeout = 5.0\<rparr>))"

text \<open>
  The \<open>while\<close> loop of \<open>_merge_similar_actions\<close>, from index \<open>i\<close> on: the argument is
  \<open>actions[i:]\<close>, the result what the loop appends to \<open>merged\<close>, or the exception.
\<close>

fun merge_from :: "Action list \<Rightarrow> exn + Action list" where
  "merge_from [] = Inr []"
| "merge_from [current_action] = Inr [current_action]"
| "merge_from (current_action # next_action # rest) =
     (if action_type current_action = ActionType.TYPE_TEXT
         \<and> action_type next_action = ActionType.TYPE_TEXT
      then (case merged_action current_action next_action of
              Inl e \<Rightarrow> Inl e
            | Inr m \<Rightarrow> (case merge_from rest of Inl e \<Rightarrow> Inl e | Inr ms \<Rightarrow> Inr (m # ms)))
      else (case merge_from (next_action # rest) of
              Inl e \<Rightarrow> Inl e
            | Inr ms \<Rightarrow> Inr (current_action # ms)))"

definition merge_similar_actions :: "Action list \<Rightarrow> exn + Action list" where
  "merge_similar_actions actions' =
     (if length actions' \<le> 1 then Inr actions' else merge_from actions')"

text \<open>\<open>total_duration += x\<close> for a float \<open>total_duration\<close>.\<close>

fun py_float_add :: "real \<Rightarrow> pyval \<Rightarrow> exn + real" where
  "py_float_add t (PBool b) = Inr (t + of_bool b)"
| "py_float_add t (PInt i) =
     (case py_int_to_float i of Inl e \<Rightarrow> Inl e | Inr x \<Rightarrow> Inr (t + x))"
| "py_float_add t (PFloat r) = Inr (t + r)"
| "py_float_add t v =
     Inl (TypeError (''unsupported operand type(s) for +=: '' @ [CHR 0x27] @ ''float'' @ [CHR 0x27] @ '' and '' @ [CHR 0x27] @ py_type_name v @ [CHR 0x27]))"

fun recalculate_duration_from :: "Action list \<Rightarrow> real \<Rightarrow> exn + real" where
  "recalculate_duration_from [] total_duration = Inr total_duration"
| "recalculate_duration_from (action # rest) total_duration =
     (if action_type action = ActionType.WAIT then
        (case py_float_add total_duration (dict_get_default (parameters action) ''duration'' (PFloat 1.0)) of
           Inl e \<Rightarrow> Inl e
         | Inr t \<Rightarrow> recalculate_duration_from rest t)
      else if action_type action = ActionType.TYPE_TEXT then
        (case py_len (dict_get_default (parameters action) ''text'' (PStr [])) of
           Inl e \<Rightarrow> Inl e
         | Inr n \<Rightarrow> recalculate_duration_from rest (total_duration + max 1.0 (real n * 0.01)))
      else recalculate_duration_from rest (total_duration + 1.0))"

definition recalculate_duration :: "Action list \<Rightarrow> exn + real" where
  "recalculate_duration actions' = recalculate_duration_from actions' 0.0"

text \<open>\<open>optimize_plan\<close>: any exception makes it return the plan it was given.\<close>

definition optimize_plan :: "Plan \<Rightarrow> pydict option \<Rightarrow> Plan" where
  "optimize_plan plan context =
     (let optimized_actions = drop_consecutive_screenshots (actions plan) []
      in case merge_similar_actions optimized_actions of
           Inl e \<Rightarrow> plan
         | Inr merged_actions \<Rightarrow>
             (case recalculate_duration merged_actions of
                Inl e \<Rightarrow> plan
              | Inr duration \<Rightarrow>
                  \<lparr>plan_id = plan_id plan,
                   intent = intent plan,
                   actions = merged_actions,
                   summary = summary plan,
                   requires_confirmation = requires_confirmation plan,
                   estimated_duration = duration,
                   risk_level = risk_level plan\<rparr>))"

subsection \<open>Validation\<close>

text \<open>The dictionary \<open>validate_plan\<close> returns.\<close>

record plan_validation =
  valid :: bool
  v_errors :: "string list"
  v_warnings :: "string list"

text \<open>\<open>_validate_action\<close>: the validation of one action, or the exception it raises.\<close>

definition validate_action :: "Runtime \<Rightarrow> PlanGenerator \<Rightarrow> Action \<Rightarrow> exn + plan_validation" where
  "validate_action rt self action =
     (let validation = \<lparr>valid = True, v_errors = [], v_warnings = []\<rparr>;
          validation1 =
            (if description action = []
             then validation\<lparr>v_warnings := v_warnings validation @ [''Description d'' @ [CHR 0x27] @ ''action manquante'']\<rparr>
             else validation);
          validation2 =
            (if action_type action = ActionType.TYPE_TEXT
                \<and> \<not> py_truthy (dict_get_default (parameters action) ''text'' (PStr []))
             then validation1\<lparr>v_errors := v_errors validation1 @ [''Texte '' @ [CHR 0xE0] @ '' saisir manquant''],
                              valid := False\<rparr>
             else validation1)
      in case dict_get (parameters action) ''skill_name'' of
           None \<Rightarrow> Inr validation2
         | Some skill_name \<Rightarrow>
             (case get_skill (skill_manager self) skill_name of
                Inl e \<Rightarrow> Inl e
              | Inr None \<Rightarrow>
                  Inr (validation2\<lparr>v_errors := v_errors validation2
                                       @ [''Comp'' @ [CHR 0xE9] @ ''tence '' @ [CHR 0x27] @ py_str (repr rt) skill_name @ [CHR 0x27] @ '' non trouv'' @ [CHR 0xE9] @ ''e''],
                                   valid := False\<rparr>)
              | Inr (Some skill) \<Rightarrow>
                  (let skill_params = dict_get_default (parameters action) ''skill_parameters'' (PDict [])
                   in case validate_parameters skill skill_params of
                        Inl e \<Rightarrow> Inl e
                      | Inr ok \<Rightarrow>
                          (if \<not> ok
                           then Inr (validation2\<lparr>v_errors := v_errors validation2
                                       @ [''Param'' @ [CHR 0xE8] @ ''tres invalides pour '' @ [CHR 0x27] @ py_str (repr rt) skill_name @ [CHR 0x27]],
                                     valid := False\<rparr>)
                           else Inr validation2))))"

text \<open>
  The loop of \<open>validate_plan\<close> over \<open>enumerate(plan.actions)\<close>, from index \<open>i\<close> on.  It
  returns the validation reached, with the exception that stopped the loop if any.
\<close>

fun validate_actions ::
  "Runtime \<Rightarrow> PlanGenerator \<Rightarrow> Action list \<Rightarrow> nat \<Rightarrow> plan_validation \<Rightarrow> exn option \<times> plan_validation" where
  "validate_actions rt self [] i validation = (None, validation)"
| "validate_actions rt self (action # rest) i validation =
     (case validate_action rt self action of
        Inl e \<Rightarrow> (Some e, validation)
      | Inr action_validation \<Rightarrow>
          (let validation1 =
                 (if \<not> valid action_validation
                  then validation\<lparr>v_errors := v_errors validation
                                    @ map (\<lambda>error. ''Action '' @ str_nat i @ '': '' @ error)
                                          (v_errors action_validation),
                                  valid := False\<rparr>
                  else validation);
               validation2 =
                 validation1\<lparr>v_warnings := v_warnings validation1
                                @ map (\<lambda>warning. ''Action '' @ str_nat i @ '': '' @ warning)
                                      (v_warnings action_validation)\<rparr>
           in validate_actions rt self rest (Suc i) validation2))"

definition check_plan_coherence :: "Plan \<Rightarrow> string list" where
  "check_plan_coherence plan =
     (let action_types = map action_type (actions plan)
      in if ActionType.SCREENSHOT \<in> set action_types
            \<and> length (filter (\<lambda>t. t = ActionType.SCREENSHOT) action_types) > 3
         then [''Nombreuses captures d'' @ [CHR 0x27, CHR 0xE9] @ ''cran - plan potentiellement inefficace'']
         else [])"

definition validate_plan :: "Runtime \<Rightarrow> PlanGenerator \<Rightarrow> Plan \<Rightarrow> plan_validation" where
  "validate_plan rt self plan =
     (let validation = \<lparr>valid = True, v_errors = [], v_warnings = []\<rparr>;
          validation1 =
            (if actions plan = []
             then validation\<lparr>v_errors := v_errors validation @ [''Plan vide - aucune action d'' @ [CHR 0xE9] @ ''finie''],
                             valid := False\<rparr>
             else validation)
      in case validate_actions rt self (actions plan) 0 validation1 of
           (None, validation2) \<Rightarrow>
             validation2\<lparr>v_warnings := v_warnings validation2 @ check_plan_coherence plan\<rparr>
         | (Some e, validation2) \<Rightarrow>
             validation2\<lparr>valid := False,
                         v_errors := v_errors validation2 @ [''Erreur validation: '' @ exn_str e]\<rparr>)"

section \<open>Planner manager (packages/planner/planner_manager.py)\<close>

text \<open>The dictionary \<open>_make_execution_decision\<close> returns.\<close>

record execution_decision =
  approved :: bool
  d_requires_confirmation :: bool
  blocking_reasons :: "string list"
  d_warnings :: "string list"
  recommendations :: "string list"

definition make_execution_decision :: "plan_validation \<Rightarrow> security_check \<Rightarrow> execution_decision" where
  "make_execution_decision plan_validation security_check =
     (let decision = \<lparr>approved = False,
                       d_requires_confirmation = False,
                       blocking_reasons = [],
                       d_warnings = [],
                       recommendations = []\<rparr>;
          decision1 =
            (if \<not> valid plan_validation then
               decision\<lparr>blocking_reasons := blocking_reasons decision @ v_errors plan_validation,
                        recommendations := recommendations decision @ [''Corrigez les erreurs de plan'']\<rparr>
             else decision);
          decision2 =
            (if \<not> can_execute security_check then
               decision1\<lparr>blocking_reasons :=
                            blocking_reasons decision1 @ map ri_message (sc_errors security_check),
                         recommendations :=
                            recommendations decision1
                            @ [''V'' @ [CHR 0xE9] @ ''rifiez les param'' @ [CHR 0xE8] @ ''tres de s''
                               @ [CHR 0xE9] @ ''curit'' @ [CHR 0xE9]]\<rparr>
             else decision1);
          decision3 = decision2\<lparr>d_warnings := d_warnings decision2 @ v_warnings plan_validation\<rparr>;
          decision4 = decision3\<lparr>d_warnings :=
                         d_warnings decision3 @ map ri_message (sc_warnings security_check)\<rparr>
      in if blocking_reasons decision4 = [] then
           decision4\<lparr>approved := True,
                     d_requires_confirmation :=
                       (sc_requires_confirmation security_check \<or> length (d_warnings decision4) > 0)\<rparr>
         else decision4)"

fun ActionType_value :: "ActionType \<Rightarrow> string" where
  "ActionType_value ActionType.MOVE_MOUSE = ''move_mouse''"
| "ActionType_value ActionType.CLICK = ''click''"
| "ActionType_value ActionType.DOUBLE_CLICK = ''double_click''"
| "ActionType_value ActionType.RIGHT_CLICK = ''right_click''"
| "ActionType_value ActionType.TYPE_TEXT = ''type_text''"
| "ActionType_value ActionType.KEY_PRESS = ''key_press''"
| "ActionType_value ActionType.HOTKEY = ''hotkey''"
| "ActionType_value ActionType.SCROLL = ''scroll''"
| "ActionType_value ActionType.WAIT = ''wait''"
| "ActionType_value ActionType.SCREENSHOT = ''screenshot''"

text \<open>
  The dictionary \<open>create_plan\<close> returns, without \<open>generation_time\<close> (a difference of
  two clock readings).
\<close>

record action_info =
  ai_type :: string
  ai_description :: string
  ai_parameters :: pydict

record plan_info =
  pi_id :: string
  pi_intent_type :: string
  pi_summary :: string
  pi_actions_count :: nat
  pi_estimated_duration :: real
  pi_risk_level :: string
  pi_actions :: "action_info list"

record planning_result =
  r_plan :: plan_info
  r_validation :: plan_validation
  r_security_check :: security_check
  r_execution_decision :: execution_decision

text \<open>The fields of a \<open>PlannerManager\<close> object; \<open>guardrails\<close> is the engine's rule list.\<close>

record 'w PlannerManager =
  plan_generator :: PlanGenerator
  guardrails :: "'w GuardrailRule list"
  plans_generated :: nat
  plans_approved :: nat
  plans_rejected :: nat
  plan_cache :: "string \<Rightarrow> Plan option"

text \<open>
  \<open>create_plan\<close>.  It returns the result or the exception raised, the manager object
  as the call leaves it, and the state of the rules.  Of the steps inside the \<open>try\<close>
  only \<open>generate_plan\<close> can raise.
\<close>

definition create_plan ::
  "Runtime \<Rightarrow> 'w PlannerManager \<Rightarrow> Intent \<Rightarrow> pydict option \<Rightarrow> bool \<Rightarrow> string \<Rightarrow> 'w
   \<Rightarrow> (exn + planning_result) \<times> 'w PlannerManager \<times> 'w" where
  "create_plan rt self intent' context optimize new_id w =
     (let self1 = self\<lparr>plans_generated := plans_generated self + 1\<rparr>
      in case generate_plan rt (plan_generator self1) intent' context new_id of
           Inl e \<Rightarrow>
             (Inl (PlannerError (''Erreur planification: '' @ exn_str e)),
              self1\<lparr>plans_rejected := plans_rejected self1 + 1\<rparr>,
              w)
         | Inr plan0 \<Rightarrow>
             (let plan = (if optimize then optimize_plan plan0 context else plan0);
                  plan_validation = validate_plan rt (plan_generator self1) plan;
                  (security_check, w1) = check_plan (guardrails self1) plan context w;
                  final_decision = make_execution_decision plan_validation security_check;
                  result =
                    \<lparr>r_plan =
                       \<lparr>pi_id = plan_id plan,
                        pi_intent_type = IntentType_value (intent_type (intent plan)),
                        pi_summary = summary plan,
                        pi_actions_count = length (actions plan),
                        pi_estimated_duration = estimated_duration plan,
                        pi_risk_level = risk_level plan,
                        pi_actions =
                          map (\<lambda>action. \<lparr>ai_type = ActionType_value (action_type action),
                                           ai_description = description action,
                                           ai_parameters = parameters action\<rparr>)
                              (actions plan)\<rparr>,
                     r_validation = plan_validation,
                     r_security_check = security_check,
                     r_execution_decision = final_decision\<rparr>;
                  self2 =
                    (if approved final_decision
                     then self1\<lparr>plans_approved := plans_approved self1 + 1\<rparr>
                     else self1\<lparr>plans_rejected := plans_rejected self1 + 1\<rparr>);
                  self3 =
                    (if approved final_decision
                     then self2\<lparr>plan_cache := (plan_cache self2)(plan_id plan \<mapsto> plan)\<rparr>
                     else self2)
              in (Inr result, self3, w1)))"

definition get_plan_by_id :: "'w PlannerManager \<Rightarrow> string \<Rightarrow> Plan option" where
  "get_plan_by_id self pid = plan_cache self pid"

section \<open>Execution of a plan (apps/agent/services.py)\<close>

text \<open>
  What \<open>execute_skill\<close> returns (\<open>SkillResult\<close>); only the fields the service reads.
\<close>

record SkillResult =
  success :: bool
  sr_error :: "string option"
  sr_data :: pydict

text \<open>
  The collaborators of the service.  \<open>'e\<close> is the state of the desktop and of the
  skills; \<open>execute_skill\<close> takes the skill name, the skill parameters and the timeout,
  and returns a \<open>SkillResult\<close> or raises; \<open>get_current_observation\<close> returns an
  observation \<open>'o\<close> or raises.  Both may change the state.
\<close>

record ('e, 'o) Collaborators =
  execute_skill :: "pyval \<Rightarrow> pyval \<Rightarrow> real \<Rightarrow> 'e \<Rightarrow> (exn + SkillResult) \<times> 'e"
  get_current_observation :: "'e \<Rightarrow> (exn + 'o) \<times> 'e"

text \<open>
  The name \<open>SkillParameters\<close> in \<open>apps/agent/services.py\<close>.  The module neither
  imports nor defines it (it lives in \<open>packages/skills/base_skill.py\<close> and is not
  exported by \<open>packages.skills\<close>), so evaluating the name raises \<open>NameError\<close>.
\<close>

definition services_SkillParameters :: "exn + unit" where
  "services_SkillParameters =
     Inl (NameError (''name '' @ [CHR 0x27] @ ''SkillParameters'' @ [CHR 0x27] @ '' is not defined''))"

text \<open>
  \<open>_execute_action\<close>.  In the call
  \<open>self.skill_manager.execute_skill(skill_name, skill_params, SkillParameters(...))\<close>
  the arguments are evaluated before the call is made: the third one raises, the
  handler of \<open>_execute_action\<close> records the step as \<open>FAILED\<close> with the message of the
  exception, and \<open>execute_skill\<close> is not called.
\<close>

definition execute_action ::
  "('e, 'o) Collaborators \<Rightarrow> Action \<Rightarrow> string \<Rightarrow> nat \<Rightarrow> 'e \<Rightarrow> StepResult \<times> 'e" where
  "execute_action svc action session_id step_index env =
     (let step_result = \<lparr>step_id = session_id @ ''_'' @ str_nat step_index,
                          status = RUNNING,
                          error_message = None,
                          step_output = None\<rparr>
      in case dict_get (parameters action) ''skill_name'' of
           Some skill_name \<Rightarrow>
             (let skill_params = dict_get_default (parameters action) ''skill_parameters'' (PDict [])
              in case services_SkillParameters of
                   Inl e \<Rightarrow>
                     (step_result\<lparr>status := FAILED, error_message := Some (exn_str e)\<rparr>, env)
                 | Inr constructor \<Rightarrow>
                     (case execute_skill svc skill_name skill_params (timeout action) env of
                        (Inr result, env1) \<Rightarrow>
                          (step_result\<lparr>status := (if success result then SUCCESS else FAILED),
                                       error_message := sr_error result,
                                       step_output := Some (PDict (sr_data result))\<rparr>,
                           env1)
                      | (Inl e, env1) \<Rightarrow>
                          (step_result\<lparr>status := FAILED, error_message := Some (exn_str e)\<rparr>,
                           env1)))
         | None \<Rightarrow>
             (step_result\<lparr>status := SKIPPED,
                          error_message := Some (''Actions primitives non impl'' @ [CHR 0xE9] @ ''ment'' @ [CHR 0xE9] @ ''es'')\<rparr>,
              env))"

text \<open>
  The loop of \<open>_execute_plan\<close> over \<open>enumerate(plan.actions)\<close>, from index \<open>i\<close> on, with
  \<open>session.step_results\<close> as accumulated so far; it stops after a \<open>FAILED\<close> step.  The
  events published on the way go to subscriber queues and have no effect on the loop;
  they are not modelled.
\<close>

fun execute_actions ::
  "('e, 'o) Collaborators \<Rightarrow> string \<Rightarrow> Action list \<Rightarrow> nat \<Rightarrow> StepResult list \<Rightarrow> 'e
   \<Rightarrow> StepResult list \<times> 'e" where
  "execute_actions svc session_id [] i step_results env = (step_results, env)"
| "execute_actions svc session_id (action # rest) i step_results env =
     (case execute_action svc action session_id i env of
        (step_result, env1) \<Rightarrow>
          (let step_results1 = step_results @ [step_result]
           in if status step_result = FAILED then (step_results1, env1)
              else execute_actions svc session_id rest (Suc i) step_results1 env1))"

text \<open>
  The states of the same loop, one step at a time: the index of the next action, the
  step results so far, the state of the desktop, and whether \<open>break\<close> was taken.
\<close>

inductive loop_state ::
  "('e, 'o) Collaborators \<Rightarrow> string \<Rightarrow> Action list \<Rightarrow> 'e
   \<Rightarrow> nat \<Rightarrow> StepResult list \<Rightarrow> 'e \<Rightarrow> bool \<Rightarrow> bool"
  for svc session_id actions' env0 where
    loop_enter: "loop_state svc session_id actions' env0 0 [] env0 False"
  | loop_iterate:
      "loop_state svc session_id actions' env0 i step_results env False \<Longrightarrow>
       i < length actions' \<Longrightarrow>
       execute_action svc (actions' ! i) session_id i env = (step_result, env1) \<Longrightarrow>
       loop_state svc session_id actions' env0 (Suc i) (step_results @ [step_result]) env1
         (status step_result = FAILED)"

record 'o ExecutionSession =
  session_id :: string
  session_plan :: Plan
  session_status :: StepStatus
  step_results :: "StepResult list"
  initial_observation :: "'o option"
  final_observation :: "'o option"

text \<open>The dictionary \<open>_execute_plan\<close> returns, without the duration.\<close>

record execution_result =
  er_success :: bool
  er_session_id :: string
  er_message :: string
  er_success_rate :: real
  er_steps_completed :: nat

text \<open>
  \<open>_execute_plan\<close>.  \<open>cache\<close> is the planner's plan cache, \<open>active_sessions\<close> the
  service's registry, \<open>new_id\<close> the identifier of the new session.  The function
  returns the result or the exception raised, the registry and the state of the
  desktop.  The removal of the session 300 seconds later is a separate task and is
  not part of this call.
\<close>

definition execute_plan ::
  "('e, 'o) Collaborators \<Rightarrow> (string \<Rightarrow> Plan option) \<Rightarrow> (string \<Rightarrow> 'o ExecutionSession option)
   \<Rightarrow> string \<Rightarrow> string \<Rightarrow> 'e
   \<Rightarrow> (exn + execution_result) \<times> (string \<Rightarrow> 'o ExecutionSession option) \<times> 'e" where
  "execute_plan svc cache active_sessions pid new_id env =
     (case cache pid of
        None \<Rightarrow> (Inl (DesktopAgentError (''Plan '' @ pid @ '' non trouv'' @ [CHR 0xE9])), active_sessions, env)
      | Some plan \<Rightarrow>
          (case get_current_observation svc env of
             (Inl e, env1) \<Rightarrow> (Inl e, active_sessions, env1)
           | (Inr obs, env1) \<Rightarrow>
               (let session = \<lparr>session_id = new_id,
                                session_plan = plan,
                                session_status = RUNNING,
                                step_results = [],
                                initial_observation = Some obs,
                                final_observation = None\<rparr>;
                    (results, env2) = execute_actions svc new_id (actions plan) 0 (step_results session) env1;
                    session1 = session\<lparr>step_results := results\<rparr>;
                    session2 = session1\<lparr>session_status :=
                                 (if success_rate (step_results session1) > 0.8 then SUCCESS else FAILED)\<rparr>
                in case get_current_observation svc env2 of
                     (Inl e, env3) \<Rightarrow>
                       (Inl e,
                        active_sessions(new_id \<mapsto> session2\<lparr>session_status := FAILED\<rparr>),
                        env3)
                   | (Inr obs2, env3) \<Rightarrow>
                       (let session3 = session2\<lparr>final_observation := Some obs2\<rparr>;
                            success' = (session_status session3 = SUCCESS)
                        in (Inr \<lparr>er_success = success',
                                 er_session_id = session_id session3,
                                 er_message = ''Ex'' @ [CHR 0xE9] @ ''cution ''
                                     @ (if success' then ''r'' @ [CHR 0xE9] @ ''ussie'' else [CHR 0xE9] @ ''chou'' @ [CHR 0xE9] @ ''e''),
                                 er_success_rate = success_rate (step_results session3),
                                 er_steps_completed = length (step_results session3)\<rparr>,
                            active_sessions(new_id \<mapsto> session3),
                            env3)))))"

section \<open>Properties\<close>

subsection \<open>Success rate\<close>

lemma count_success_le: "length (filter P xs) \<le> length xs"
  by simp

text \<open>
  C8.  The success rate of a session is the number of step results with status
  SUCCESS divided by the number of step results, it is 0.0 when there is no step
  result, and it always lies between 0.0 and 1.0.
\<close>

theorem success_rate_spec:
  "success_rate rs =
     (if rs = [] then 0
      else real (length (filter (\<lambda>r. status r = SUCCESS) rs)) / real (length rs))
   \<and> success_rate [] = 0
   \<and> 0 \<le> success_rate rs \<and> success_rate rs \<le> 1"
proof -
  have le: "real (length (filter (\<lambda>r. status r = SUCCESS) rs)) \<le> real (length rs)"
    using count_success_le [of "\<lambda>r. status r = SUCCESS" rs] by simp
  have "success_rate rs \<le> 1"
  proof (cases "rs = []")
    case True
    then show ?thesis by (simp add: success_rate_def)
  next
    case False
    then have "0 < real (length rs)" by simp
    with le show ?thesis using False by (simp add: success_rate_def)
  qed
  moreover have "0 \<le> success_rate rs"
    by (simp add: success_rate_def)
  ultimately show ?thesis
    by (simp add: success_rate_def)
qed

theorem success_rate_spec_witness:
  "success_rate [\<lparr>step_id = ''s_0'', status = SUCCESS, error_message = None, step_output = None\<rparr>,
                 \<lparr>step_id = ''s_1'', status = FAILED, error_message = Some ''boom'', step_output = None\<rparr>]
     = 1 / 2
   \<and> success_rate [] = 0"
  using success_rate_spec
    [of "[\<lparr>step_id = ''s_0'', status = SUCCESS, error_message = None, step_output = None\<rparr>,
          \<lparr>step_id = ''s_1'', status = FAILED, error_message = Some ''boom'', step_output = None\<rparr>]"]
  by simp

subsection \<open>Rate limit\<close>

lemma check_passed_iff:
  "passed (fst (RateLimitRule_check t self)) =
     (int (length (filter (\<lambda>ts. t - ts < 60) (execution_history self))) < max_executions_per_minute self)"
  by (simp add: RateLimitRule_check_def Let_def)

lemma check_history:
  "execution_history (snd (RateLimitRule_check t self)) =
     (if passed (fst (RateLimitRule_check t self))
      then filter (\<lambda>ts. t - ts < 60) (execution_history self) @ [t]
      else filter (\<lambda>ts. t - ts < 60) (execution_history self))"
  by (simp add: RateLimitRule_check_def Let_def)

lemma check_max:
  "max_executions_per_minute (snd (RateLimitRule_check t self)) = max_executions_per_minute self"
  by (simp add: RateLimitRule_check_def Let_def)

lemma checks_window:
  "sorted_wrt (\<lambda>earlier later. later - earlier < 60) ts \<Longrightarrow>
   \<forall>t \<in> set ts. \<forall>x \<in> set (execution_history self). t - x < 60 \<Longrightarrow>
   fst (RateLimitRule_checks ts self) =
     map (\<lambda>k. int (length (execution_history self)) + int k < max_executions_per_minute self)
         [0..<length ts]"
proof (induction ts arbitrary: self)
  case Nil
  then show ?case by simp
next
  case (Cons t ts)
  let ?h = "execution_history self"
  let ?m = "max_executions_per_minute self"
  obtain r self1 where c: "RateLimitRule_check t self = (r, self1)"
    by (cases "RateLimitRule_check t self")
  have keep: "filter (\<lambda>x. t - x < 60) ?h = ?h"
    using Cons.prems(2) by (simp add: filter_id_conv)
  have p: "passed r = (int (length ?h) < ?m)"
    using check_passed_iff [of t self] c keep by simp
  have h1: "execution_history self1 = (if passed r then ?h @ [t] else ?h)"
    using check_history [of t self] c keep by simp
  have m1: "max_executions_per_minute self1 = ?m"
    using check_max [of t self] c by simp
  have sw: "sorted_wrt (\<lambda>earlier later. later - earlier < 60) ts"
    and after: "\<forall>t' \<in> set ts. t' - t < 60"
    using Cons.prems(1) by simp_all
  have pre: "\<forall>t' \<in> set ts. \<forall>x \<in> set (execution_history self1). t' - x < 60"
    using Cons.prems(2) after h1 by auto
  have ih: "fst (RateLimitRule_checks ts self1) =
     map (\<lambda>k. int (length (execution_history self1)) + int k < ?m) [0..<length ts]"
    using Cons.IH [OF sw pre] m1 by simp
  have shift: "map (\<lambda>k. int (length (execution_history self1)) + int k < ?m) [0..<length ts]
      = map (\<lambda>k. int (length ?h) + int (Suc k) < ?m) [0..<length ts]"
    using h1 p by auto
  have "fst (RateLimitRule_checks (t # ts) self) = passed r # fst (RateLimitRule_checks ts self1)"
    using c by (simp add: split_beta)
  also have "\<dots> = (int (length ?h) + int 0 < ?m)
      # map (\<lambda>k. int (length ?h) + int (Suc k) < ?m) [0..<length ts]"
    using ih shift p by simp
  also have "\<dots> = map (\<lambda>k. int (length ?h) + int k < ?m) [0..<length (t # ts)]"
    by (simp add: upt_rec [of 0] map_Suc_upt [symmetric] del: upt_Suc)
  finally show ?case .
qed

lemma upt11: "[0..<11] = [0,1,2,3,4,5,6,7,8,9,10::nat]"
  by (simp add: upt_rec)

text \<open>
  C7.  The rate-limit rule keeps a rolling 60-second window: a check first drops the
  recorded timestamps that are 60 seconds old or older, and it fails exactly when the
  timestamps that remain number at least the configured maximum; the maximum of a new
  rule is 10; the current timestamp is appended to the window only by a passing check.
  Hence, of 11 checks on a new rule, each less than 60 seconds after all the earlier
  ones, the first ten pass and the eleventh fails.
\<close>

theorem RateLimitRule_window:
  "passed (fst (RateLimitRule_check t self)) =
     (\<not> int (length (filter (\<lambda>ts. t - ts < 60) (execution_history self)))
          \<ge> max_executions_per_minute self)
   \<and> execution_history (snd (RateLimitRule_check t self)) =
     (if passed (fst (RateLimitRule_check t self))
      then filter (\<lambda>ts. t - ts < 60) (execution_history self) @ [t]
      else filter (\<lambda>ts. t - ts < 60) (execution_history self))
   \<and> max_executions_per_minute RateLimitRule_init = 10
   \<and> (length calls = 11 \<and> sorted_wrt (\<lambda>earlier later. later - earlier < 60) calls
        \<longrightarrow> fst (RateLimitRule_checks calls RateLimitRule_init)
            = [True, True, True, True, True, True, True, True, True, True, False])"
proof -
  have last: "fst (RateLimitRule_checks calls RateLimitRule_init)
            = [True, True, True, True, True, True, True, True, True, True, False]"
    if len: "length calls = 11" and sw: "sorted_wrt (\<lambda>earlier later. later - earlier < 60) calls"
  proof -
    have "\<forall>t \<in> set calls. \<forall>x \<in> set (execution_history RateLimitRule_init). t - x < 60"
      by (simp add: RateLimitRule_init_def)
    from checks_window [OF sw this] len show ?thesis
      by (simp add: RateLimitRule_init_def upt11)
  qed
  show ?thesis
    using check_passed_iff [of t self] check_history [of t self] last
    by (simp add: RateLimitRule_init_def not_le)
qed

theorem RateLimitRule_window_witness:
  "length [0, 5, 10, 15, 20, 25, 30, 35, 40, 45, 59 :: real] = 11
   \<and> sorted_wrt (\<lambda>earlier later. later - earlier < 60) [0, 5, 10, 15, 20, 25, 30, 35, 40, 45, 59 :: real]
   \<and> fst (RateLimitRule_checks [0, 5, 10, 15, 20, 25, 30, 35, 40, 45, 59] RateLimitRule_init)
       = [True, True, True, True, True, True, True, True, True, True, False]"
  using RateLimitRule_window [of 0 RateLimitRule_init "[0, 5, 10, 15, 20, 25, 30, 35, 40, 45, 59]"]
  by simp

subsection \<open>Guardrail aggregation\<close>

lemma check_rules_append:
  "check_rules (xs @ ys) plan ctx results w =
     (case check_rules xs plan ctx results w of
        (results1, w1) \<Rightarrow> check_rules ys plan ctx results1 w1)"
  by (induction xs arbitrary: results w) (simp_all split: prod.split)

lemma check_rule_rule_results:
  "rule_results (fst (check_rule rule plan ctx results w)) =
     rule_results results @ [last (rule_results (fst (check_rule rule plan ctx results w)))]"
  by (simp add: check_rule_def Let_def split: prod.split sum.split)

lemma check_rule_can_execute:
  "can_execute (fst (check_rule rule plan ctx results w)) =
     (can_execute results \<and>
      \<not> (\<not> ri_passed (last (rule_results (fst (check_rule rule plan ctx results w))))
         \<and> ri_severity (last (rule_results (fst (check_rule rule plan ctx results w)))) = ''critical''))"
  by (simp add: check_rule_def Let_def split: prod.split sum.split)

lemma check_rule_sc_errors:
  "sc_errors (fst (check_rule rule plan ctx results w)) =
     sc_errors results @
     filter (\<lambda>ri. \<not> ri_passed ri \<and> ri_severity ri \<in> {''error'', ''critical''})
       [last (rule_results (fst (check_rule rule plan ctx results w)))]"
  by (simp add: check_rule_def Let_def split: prod.split sum.split)

lemma check_rule_overall_passed:
  "overall_passed (fst (check_rule rule plan ctx results w)) =
     (overall_passed results \<and>
      \<not> (\<not> ri_passed (last (rule_results (fst (check_rule rule plan ctx results w))))
         \<and> ri_severity (last (rule_results (fst (check_rule rule plan ctx results w))))
             \<in> {''error'', ''critical''}))"
  by (simp add: check_rule_def Let_def split: prod.split sum.split)

lemma check_rule_sc_warnings:
  "sc_warnings (fst (check_rule rule plan ctx results w)) =
     sc_warnings results @
     filter (\<lambda>ri. \<not> ri_passed ri \<and> ri_severity ri = ''warning'')
       [last (rule_results (fst (check_rule rule plan ctx results w)))]"
  by (simp add: check_rule_def Let_def split: prod.split sum.split)

lemma check_rule_sc_requires_confirmation:
  "sc_requires_confirmation (fst (check_rule rule plan ctx results w)) =
     (sc_requires_confirmation results \<or>
      (\<not> ri_passed (last (rule_results (fst (check_rule rule plan ctx results w))))
         \<and> ri_severity (last (rule_results (fst (check_rule rule plan ctx results w)))) = ''warning''))"
  by (simp add: check_rule_def Let_def split: prod.split sum.split)

lemma check_rules_invariant:
  assumes step: "\<And>rule r w. rule \<in> set rules \<Longrightarrow> is_rule_applicable rule plan \<Longrightarrow> Q r
                   \<Longrightarrow> Q (fst (check_rule rule plan ctx r w))"
    and init: "Q results"
  shows "Q (fst (check_rules rules plan ctx results w))"
  using assms
proof (induction rules arbitrary: results w)
  case Nil
  then show ?case by simp
next
  case (Cons rule rules)
  show ?case
  proof (cases "is_rule_applicable rule plan")
    case False
    then show ?thesis using Cons by simp
  next
    case True
    obtain r1 w1 where s: "check_rule rule plan ctx results w = (r1, w1)"
      by (cases "check_rule rule plan ctx results w")
    have "Q r1"
      using Cons.prems(1) [of rule results w] True Cons.prems(2) s by simp
    then have "Q (fst (check_rules rules plan ctx r1 w1))"
      using Cons.IH [of r1 w1] Cons.prems(1) by simp
    then show ?thesis using True s by simp
  qed
qed

lemma check_rule_last_critical:
  "\<not> ri_passed (last (rule_results (fst (check_rule rule plan ctx results w)))) \<Longrightarrow>
   ri_severity (last (rule_results (fst (check_rule rule plan ctx results w)))) = ''critical'' \<Longrightarrow>
   severity rule = ''critical''"
  by (simp add: check_rule_def Let_def split: prod.splits sum.splits if_splits)

lemma check_rule_failing_info:
  assumes "check rule plan ctx w = (Inr rr, w2)"
  shows "last (rule_results (fst (check_rule rule plan ctx results w))) =
     \<lparr>ri_rule_name = rule_name rule, ri_description = Some (rule_description rule),
      ri_severity = severity rule, ri_passed = passed rr, ri_message = message rr,
      ri_details = (case details rr of None \<Rightarrow> [] | Some d \<Rightarrow> d)\<rparr>"
  using assms by (simp add: check_rule_def Let_def)

lemma inv_can_execute:
  assumes "can_execute results = (\<forall>ri \<in> set (rule_results results). \<not> (\<not> ri_passed ri \<and> ri_severity ri = ''critical''))"
  shows "can_execute (fst (check_rules rules plan ctx results (w :: 'w))) =
    (\<forall>ri \<in> set (rule_results (fst (check_rules rules plan ctx results w))).
        \<not> (\<not> ri_passed ri \<and> ri_severity ri = ''critical''))"
proof (rule check_rules_invariant [where Q = "\<lambda>r. can_execute r = (\<forall>ri \<in> set (rule_results r). \<not> (\<not> ri_passed ri \<and> ri_severity ri = ''critical''))"])
  fix rule :: "'w GuardrailRule" and r :: security_check and w :: 'w
  assume q: "can_execute r = (\<forall>ri \<in> set (rule_results r). \<not> (\<not> ri_passed ri \<and> ri_severity ri = ''critical''))"
  let ?r1 = "fst (check_rule rule plan ctx r w)"
  have "set (rule_results ?r1) = insert (last (rule_results ?r1)) (set (rule_results r))"
    using check_rule_rule_results [of rule plan ctx r w]
    by (metis Un_insert_right list.simps(15) set_append sup_bot.right_neutral empty_set)
  then show "can_execute ?r1 = (\<forall>ri \<in> set (rule_results ?r1). \<not> (\<not> ri_passed ri \<and> ri_severity ri = ''critical''))"
    using check_rule_can_execute [of rule plan ctx r w] q by auto
qed (rule assms)

lemma inv_sc_errors:
  assumes "sc_errors results =
     filter (\<lambda>ri. \<not> ri_passed ri \<and> ri_severity ri \<in> {''error'', ''critical''}) (rule_results results)"
  shows "sc_errors (fst (check_rules rules plan ctx results (w :: 'w))) =
     filter (\<lambda>ri. \<not> ri_passed ri \<and> ri_severity ri \<in> {''error'', ''critical''})
       (rule_results (fst (check_rules rules plan ctx results w)))"
proof (rule check_rules_invariant [where Q = "\<lambda>r. sc_errors r =
     filter (\<lambda>ri. \<not> ri_passed ri \<and> ri_severity ri \<in> {''error'', ''critical''}) (rule_results r)"])
  fix rule :: "'w GuardrailRule" and r :: security_check and w :: 'w
  assume q: "sc_errors r =
     filter (\<lambda>ri. \<not> ri_passed ri \<and> ri_severity ri \<in> {''error'', ''critical''}) (rule_results r)"
  let ?r1 = "fst (check_rule rule plan ctx r w)"
  have "filter (\<lambda>ri. \<not> ri_passed ri \<and> ri_severity ri \<in> {''error'', ''critical''}) (rule_results ?r1)
      = filter (\<lambda>ri. \<not> ri_passed ri \<and> ri_severity ri \<in> {''error'', ''critical''}) (rule_results r)
        @ filter (\<lambda>ri. \<not> ri_passed ri \<and> ri_severity ri \<in> {''error'', ''critical''}) [last (rule_results ?r1)]"
    using check_rule_rule_results [of rule plan ctx r w] by (metis filter_append)
  then show "sc_errors ?r1 =
     filter (\<lambda>ri. \<not> ri_passed ri \<and> ri_severity ri \<in> {''error'', ''critical''}) (rule_results ?r1)"
    using check_rule_sc_errors [of rule plan ctx r w] q by simp
qed (rule assms)

lemma inv_sc_warnings:
  assumes "sc_warnings results =
     filter (\<lambda>ri. \<not> ri_passed ri \<and> ri_severity ri = ''warning'') (rule_results results)"
  shows "sc_warnings (fst (check_rules rules plan ctx results (w :: 'w))) =
     filter (\<lambda>ri. \<not> ri_passed ri \<and> ri_severity ri = ''warning'')
       (rule_results (fst (check_rules rules plan ctx results w)))"
proof (rule check_rules_invariant [where Q = "\<lambda>r. sc_warnings r =
     filter (\<lambda>ri. \<not> ri_passed ri \<and> ri_severity ri = ''warning'') (rule_results r)"])
  fix rule :: "'w GuardrailRule" and r :: security_check and w :: 'w
  assume q: "sc_warnings r =
     filter (\<lambda>ri. \<not> ri_passed ri \<and> ri_severity ri = ''warning'') (rule_results r)"
  let ?r1 = "fst (check_rule rule plan ctx r w)"
  have "filter (\<lambda>ri. \<not> ri_passed ri \<and> ri_severity ri = ''warning'') (rule_results ?r1)
      = filter (\<lambda>ri. \<not> ri_passed ri \<and> ri_severity ri = ''warning'') (rule_results r)
        @ filter (\<lambda>ri. \<not> ri_passed ri \<and> ri_severity ri = ''warning'') [last (rule_results ?r1)]"
    using check_rule_rule_results [of rule plan ctx r w] by (metis filter_append)
  then show "sc_warnings ?r1 =
     filter (\<lambda>ri. \<not> ri_passed ri \<and> ri_severity ri = ''warning'') (rule_results ?r1)"
    using check_rule_sc_warnings [of rule plan ctx r w] q by simp
qed (rule assms)

lemma inv_overall_passed:
  assumes "overall_passed results = (sc_errors results = [])"
  shows "overall_passed (fst (check_rules rules plan ctx results (w :: 'w))) =
     (sc_errors (fst (check_rules rules plan ctx results w)) = [])"
proof (rule check_rules_invariant [where Q = "\<lambda>r. overall_passed r = (sc_errors r = [])"])
  fix rule :: "'w GuardrailRule" and r :: security_check and w :: 'w
  assume q: "overall_passed r = (sc_errors r = [])"
  show "overall_passed (fst (check_rule rule plan ctx r w))
      = (sc_errors (fst (check_rule rule plan ctx r w)) = [])"
    using check_rule_sc_errors [of rule plan ctx r w]
      check_rule_overall_passed [of rule plan ctx r w] q by simp
qed (rule assms)

lemma inv_requires_confirmation:
  assumes "sc_requires_confirmation results = (b \<or> sc_warnings results \<noteq> [])"
  shows "sc_requires_confirmation (fst (check_rules rules plan ctx results (w :: 'w))) =
     (b \<or> sc_warnings (fst (check_rules rules plan ctx results w)) \<noteq> [])"
proof (rule check_rules_invariant [where Q = "\<lambda>r. sc_requires_confirmation r = (b \<or> sc_warnings r \<noteq> [])"])
  fix rule :: "'w GuardrailRule" and r :: security_check and w :: 'w
  assume q: "sc_requires_confirmation r = (b \<or> sc_warnings r \<noteq> [])"
  show "sc_requires_confirmation (fst (check_rule rule plan ctx r w))
      = (b \<or> sc_warnings (fst (check_rule rule plan ctx r w)) \<noteq> [])"
    using check_rule_sc_warnings [of rule plan ctx r w]
      check_rule_sc_requires_confirmation [of rule plan ctx r w] q by auto
qed (rule assms)

lemma inv_no_critical:
  assumes "\<forall>rule \<in> set rules. severity rule \<noteq> ''critical''" and "can_execute results"
  shows "can_execute (fst (check_rules rules plan ctx results (w :: 'w)))"
proof (rule check_rules_invariant [where Q = can_execute])
  fix rule :: "'w GuardrailRule" and r :: security_check and w :: 'w
  assume "rule \<in> set rules" and q: "can_execute r"
  then have "severity rule \<noteq> ''critical''" using assms(1) by simp
  then show "can_execute (fst (check_rule rule plan ctx r w))"
    using check_rule_can_execute [of rule plan ctx r w]
      check_rule_last_critical [of rule plan ctx r w] q by blast
qed (rule assms(2))

lemma check_rules_monotone:
  "(can_execute (fst (check_rules rules plan ctx results (w :: 'w))) \<longrightarrow> can_execute results)
   \<and> (overall_passed (fst (check_rules rules plan ctx results w)) \<longrightarrow> overall_passed results)
   \<and> (sc_requires_confirmation results \<longrightarrow> sc_requires_confirmation (fst (check_rules rules plan ctx results w)))
   \<and> set (sc_errors results) \<subseteq> set (sc_errors (fst (check_rules rules plan ctx results w)))
   \<and> set (sc_warnings results) \<subseteq> set (sc_warnings (fst (check_rules rules plan ctx results w)))"
proof (rule check_rules_invariant [where Q = "\<lambda>r.
     (can_execute r \<longrightarrow> can_execute results)
   \<and> (overall_passed r \<longrightarrow> overall_passed results)
   \<and> (sc_requires_confirmation results \<longrightarrow> sc_requires_confirmation r)
   \<and> set (sc_errors results) \<subseteq> set (sc_errors r)
   \<and> set (sc_warnings results) \<subseteq> set (sc_warnings r)"])
  fix rule :: "'w GuardrailRule" and r :: security_check and w :: 'w
  assume q: "(can_execute r \<longrightarrow> can_execute results)
   \<and> (overall_passed r \<longrightarrow> overall_passed results)
   \<and> (sc_requires_confirmation results \<longrightarrow> sc_requires_confirmation r)
   \<and> set (sc_errors results) \<subseteq> set (sc_errors r)
   \<and> set (sc_warnings results) \<subseteq> set (sc_warnings r)"
  let ?r1 = "fst (check_rule rule plan ctx r w)"
  have a: "can_execute ?r1 \<longrightarrow> can_execute r"
    using check_rule_can_execute [of rule plan ctx r w] by blast
  have b: "overall_passed ?r1 \<longrightarrow> overall_passed r"
    using check_rule_overall_passed [of rule plan ctx r w] by blast
  have c: "sc_requires_confirmation r \<longrightarrow> sc_requires_confirmation ?r1"
    using check_rule_sc_requires_confirmation [of rule plan ctx r w] by blast
  have d: "set (sc_errors r) \<subseteq> set (sc_errors ?r1)"
    by (subst check_rule_sc_errors) simp
  have e: "set (sc_warnings r) \<subseteq> set (sc_warnings ?r1)"
    by (subst check_rule_sc_warnings) simp
  from q have q1: "can_execute r \<longrightarrow> can_execute results"
    and q2: "overall_passed r \<longrightarrow> overall_passed results"
    and q3: "sc_requires_confirmation results \<longrightarrow> sc_requires_confirmation r"
    and q4: "set (sc_errors results) \<subseteq> set (sc_errors r)"
    and q5: "set (sc_warnings results) \<subseteq> set (sc_warnings r)"
    by simp_all
  have g1: "can_execute ?r1 \<longrightarrow> can_execute results" using a q1 by simp
  have g2: "overall_passed ?r1 \<longrightarrow> overall_passed results" using b q2 by simp
  have g3: "sc_requires_confirmation results \<longrightarrow> sc_requires_confirmation ?r1" using c q3 by simp
  have g4: "set (sc_errors results) \<subseteq> set (sc_errors ?r1)" using q4 d by (rule order_trans)
  have g5: "set (sc_warnings results) \<subseteq> set (sc_warnings ?r1)" using q5 e by (rule order_trans)
  show "(can_execute ?r1 \<longrightarrow> can_execute results)
   \<and> (overall_passed ?r1 \<longrightarrow> overall_passed results)
   \<and> (sc_requires_confirmation results \<longrightarrow> sc_requires_confirmation ?r1)
   \<and> set (sc_errors results) \<subseteq> set (sc_errors ?r1)
   \<and> set (sc_warnings results) \<subseteq> set (sc_warnings ?r1)"
    using g1 g2 g3 g4 g5 by (intro conjI)
qed simp

lemma failing_rule_effect:
  fixes w :: 'w
  assumes split: "rules = before @ rule # after"
    and app: "is_rule_applicable rule plan"
    and pre: "check_rules before plan ctx results w = (v1, w1)"
    and chk: "check rule plan ctx w1 = (Inr rr, w2)"
    and fail: "\<not> passed rr"
    and info: "info = \<lparr>ri_rule_name = rule_name rule, ri_description = Some (rule_description rule),
      ri_severity = severity rule, ri_passed = False, ri_message = message rr,
      ri_details = (case details rr of None \<Rightarrow> [] | Some d \<Rightarrow> d)\<rparr>"
    and fin: "v = fst (check_rules rules plan ctx results w)"
  shows "(severity rule = ''critical'' \<longrightarrow> \<not> can_execute v \<and> \<not> overall_passed v \<and> info \<in> set (sc_errors v))
     \<and> (severity rule = ''error'' \<longrightarrow> \<not> overall_passed v \<and> info \<in> set (sc_errors v))
     \<and> (severity rule = ''warning'' \<longrightarrow> sc_requires_confirmation v \<and> info \<in> set (sc_warnings v))"
proof -
  let ?r2 = "fst (check_rule rule plan ctx v1 w1)"
  let ?w2 = "snd (check_rule rule plan ctx v1 w1)"
  have v: "v = fst (check_rules after plan ctx ?r2 ?w2)"
    using fin split pre app by (simp add: check_rules_append split_beta)
  have l: "last (rule_results ?r2) = info"
    using check_rule_failing_info [OF chk, of v1] fail info by simp
  have ce: "can_execute ?r2 = (can_execute v1 \<and> severity rule \<noteq> ''critical'')"
    using check_rule_can_execute [of rule plan ctx v1 w1] l info by simp
  have op: "overall_passed ?r2 = (overall_passed v1 \<and> severity rule \<notin> {''error'', ''critical''})"
    using check_rule_overall_passed [of rule plan ctx v1 w1] l info by simp
  have rc: "sc_requires_confirmation ?r2 = (sc_requires_confirmation v1 \<or> severity rule = ''warning'')"
    using check_rule_sc_requires_confirmation [of rule plan ctx v1 w1] l info by simp
  have er: "severity rule \<in> {''error'', ''critical''} \<longrightarrow> info \<in> set (sc_errors ?r2)"
    by (subst check_rule_sc_errors) (simp add: l info)
  have wa: "severity rule = ''warning'' \<longrightarrow> info \<in> set (sc_warnings ?r2)"
    by (subst check_rule_sc_warnings) (simp add: l info)
  note m = check_rules_monotone [of after plan ctx ?r2 ?w2, folded v]
  from m have m1: "can_execute v \<longrightarrow> can_execute ?r2"
    and m2: "overall_passed v \<longrightarrow> overall_passed ?r2"
    and m3: "sc_requires_confirmation ?r2 \<longrightarrow> sc_requires_confirmation v"
    and m4: "set (sc_errors ?r2) \<subseteq> set (sc_errors v)"
    and m5: "set (sc_warnings ?r2) \<subseteq> set (sc_warnings v)"
    by simp_all
  have c1: "severity rule = ''critical'' \<longrightarrow> \<not> can_execute v"
    using m1 ce by blast
  have c2: "severity rule \<in> {''error'', ''critical''} \<longrightarrow> \<not> overall_passed v"
    using m2 op by blast
  have c3: "severity rule \<in> {''error'', ''critical''} \<longrightarrow> info \<in> set (sc_errors v)"
    using m4 er by blast
  have c4: "severity rule = ''warning'' \<longrightarrow> sc_requires_confirmation v"
    using m3 rc by blast
  have c5: "severity rule = ''warning'' \<longrightarrow> info \<in> set (sc_warnings v)"
    using m5 wa by blast
  show ?thesis
    using c1 c2 c3 c4 c5 by simp
qed

text \<open>
  C1.  For every check of a plan against any list of rules: the verdict can execute
  exactly when no recorded rule result is a failure of severity critical, so that a
  list of rules none of which is critical can never set can_execute to false; the
  errors are exactly the failed results of severity error or critical, and
  overall_passed holds exactly when there is none; the warnings are exactly the failed
  results of severity warning, and requires_confirmation holds exactly when the plan
  asked for it or there is a warning.  Rule by rule: when an applicable rule, called in
  the state its predecessors left, returns passed = False, then with severity critical
  can_execute is false, with severity error or critical its entry is among the errors
  and overall_passed is false, and with severity warning its entry is among the
  warnings and requires_confirmation is true.
\<close>

theorem check_plan_severity_aggregation:
  fixes w :: 'w
  assumes "check_plan rules plan ctx w = (v, w')"
  shows "can_execute v =
       (\<forall>ri \<in> set (rule_results v). \<not> (\<not> ri_passed ri \<and> ri_severity ri = ''critical''))
     \<and> ((\<forall>rule \<in> set rules. severity rule \<noteq> ''critical'') \<longrightarrow> can_execute v)
     \<and> sc_errors v =
         filter (\<lambda>ri. \<not> ri_passed ri \<and> ri_severity ri \<in> {''error'', ''critical''}) (rule_results v)
     \<and> overall_passed v = (sc_errors v = [])
     \<and> sc_warnings v =
         filter (\<lambda>ri. \<not> ri_passed ri \<and> ri_severity ri = ''warning'') (rule_results v)
     \<and> sc_requires_confirmation v = (requires_confirmation plan \<or> sc_warnings v \<noteq> [])
     \<and> (\<forall>before rule after v1 w1 rr w2.
           rules = before @ rule # after \<and> is_rule_applicable rule plan
           \<and> check_rules before plan ctx (initial_results plan) w = (v1, w1)
           \<and> check rule plan ctx w1 = (Inr rr, w2) \<and> \<not> passed rr \<longrightarrow>
           (severity rule = ''critical'' \<longrightarrow>
              \<not> can_execute v \<and> \<not> overall_passed v
              \<and> \<lparr>ri_rule_name = rule_name rule, ri_description = Some (rule_description rule),
                  ri_severity = severity rule, ri_passed = False, ri_message = message rr,
                  ri_details = (case details rr of None \<Rightarrow> [] | Some d \<Rightarrow> d)\<rparr> \<in> set (sc_errors v))
           \<and> (severity rule = ''error'' \<longrightarrow>
              \<not> overall_passed v
              \<and> \<lparr>ri_rule_name = rule_name rule, ri_description = Some (rule_description rule),
                  ri_severity = severity rule, ri_passed = False, ri_message = message rr,
                  ri_details = (case details rr of None \<Rightarrow> [] | Some d \<Rightarrow> d)\<rparr> \<in> set (sc_errors v))
           \<and> (severity rule = ''warning'' \<longrightarrow>
              sc_requires_confirmation v
              \<and> \<lparr>ri_rule_name = rule_name rule, ri_description = Some (rule_description rule),
                  ri_severity = severity rule, ri_passed = False, ri_message = message rr,
                  ri_details = (case details rr of None \<Rightarrow> [] | Some d \<Rightarrow> d)\<rparr> \<in> set (sc_warnings v)))"
proof -
  have v: "v = fst (check_rules rules plan ctx (initial_results plan) w)"
    using assms by (simp add: check_plan_def)
  have p1: "can_execute v =
       (\<forall>ri \<in> set (rule_results v). \<not> (\<not> ri_passed ri \<and> ri_severity ri = ''critical''))"
    unfolding v by (rule inv_can_execute) (simp add: initial_results_def)
  have p2: "(\<forall>rule \<in> set rules. severity rule \<noteq> ''critical'') \<longrightarrow> can_execute v"
    unfolding v by (rule impI, rule inv_no_critical) (simp_all add: initial_results_def)
  have p3: "sc_errors v =
         filter (\<lambda>ri. \<not> ri_passed ri \<and> ri_severity ri \<in> {''error'', ''critical''}) (rule_results v)"
    unfolding v by (rule inv_sc_errors) (simp add: initial_results_def)
  have p4: "overall_passed v = (sc_errors v = [])"
    unfolding v by (rule inv_overall_passed) (simp add: initial_results_def)
  have p5: "sc_warnings v =
         filter (\<lambda>ri. \<not> ri_passed ri \<and> ri_severity ri = ''warning'') (rule_results v)"
    unfolding v by (rule inv_sc_warnings) (simp add: initial_results_def)
  have p6: "sc_requires_confirmation v = (requires_confirmation plan \<or> sc_warnings v \<noteq> [])"
    unfolding v by (rule inv_requires_confirmation) (simp add: initial_results_def)
  have p7: "(severity rule = ''critical'' \<longrightarrow> \<not> can_execute v \<and> \<not> overall_passed v \<and> info \<in> set (sc_errors v))
     \<and> (severity rule = ''error'' \<longrightarrow> \<not> overall_passed v \<and> info \<in> set (sc_errors v))
     \<and> (severity rule = ''warning'' \<longrightarrow> sc_requires_confirmation v \<and> info \<in> set (sc_warnings v))"
    if "rules = before @ rule # after" "is_rule_applicable rule plan"
      "check_rules before plan ctx (initial_results plan) w = (v1, w1)"
      "check rule plan ctx w1 = (Inr rr, w2)" "\<not> passed rr"
      "info = \<lparr>ri_rule_name = rule_name rule, ri_description = Some (rule_description rule),
                  ri_severity = severity rule, ri_passed = False, ri_message = message rr,
                  ri_details = (case details rr of None \<Rightarrow> [] | Some d \<Rightarrow> d)\<rparr>"
    for before rule after v1 w1 rr w2 info
    using failing_rule_effect [OF that v] .
  show ?thesis
    using p1 p2 p3 p4 p5 p6 p7 by blast
qed

theorem check_plan_severity_aggregation_witness:
  "can_execute (fst (check_plan
      [\<lparr>rule_name = ''path_security'', rule_description = ''paths'', severity = ''error'',
        applies_to = [IntentType.SAVE_FILE, IntentType.WRITE_TEXT_FILE],
        check = (\<lambda>plan context w. (Inr \<lparr>passed = False, message = ''forbidden'', details = None\<rparr>, w))\<rparr>]
      \<lparr>plan_id = ''p1'',
        intent = \<lparr>intent_type = IntentType.WRITE_TEXT_FILE, confidence = 1,
                  slots = [(''content'', PStr ''hello''), (''path'', PStr ''/etc/passwd'')],
                  original_text = ''write'', normalized_text = None\<rparr>,
        actions = [], summary = ''s'', requires_confirmation = False,
        estimated_duration = 0, risk_level = ''medium''\<rparr>
      None ()))
   \<and> \<not> overall_passed (fst (check_plan
      [\<lparr>rule_name = ''path_security'', rule_description = ''paths'', severity = ''error'',
        applies_to = [IntentType.SAVE_FILE, IntentType.WRITE_TEXT_FILE],
        check = (\<lambda>plan context w. (Inr \<lparr>passed = False, message = ''forbidden'', details = None\<rparr>, w))\<rparr>]
      \<lparr>plan_id = ''p1'',
        intent = \<lparr>intent_type = IntentType.WRITE_TEXT_FILE, confidence = 1,
                  slots = [(''content'', PStr ''hello''), (''path'', PStr ''/etc/passwd'')],
                  original_text = ''write'', normalized_text = None\<rparr>,
        actions = [], summary = ''s'', requires_confirmation = False,
        estimated_duration = 0, risk_level = ''medium''\<rparr>
      None ()))
   \<and> \<not> can_execute (fst (check_plan
      [\<lparr>rule_name = ''custom'', rule_description = ''blocks'', severity = ''critical'',
        applies_to = [],
        check = (\<lambda>plan context w. (Inr \<lparr>passed = False, message = ''blocked'', details = None\<rparr>, w))\<rparr>]
      \<lparr>plan_id = ''p1'',
        intent = \<lparr>intent_type = IntentType.WRITE_TEXT_FILE, confidence = 1,
                  slots = [(''content'', PStr ''hello''), (''path'', PStr ''/etc/passwd'')],
                  original_text = ''write'', normalized_text = None\<rparr>,
        actions = [], summary = ''s'', requires_confirmation = False,
        estimated_duration = 0, risk_level = ''medium''\<rparr>
      None ()))"
proof -
  let ?P = "\<lparr>plan_id = ''p1'',
        intent = \<lparr>intent_type = IntentType.WRITE_TEXT_FILE, confidence = 1,
                  slots = [(''content'', PStr ''hello''), (''path'', PStr ''/etc/passwd'')],
                  original_text = ''write'', normalized_text = None\<rparr>,
        actions = [], summary = ''s'', requires_confirmation = False,
        estimated_duration = 0, risk_level = ''medium''\<rparr>"
  let ?E = "\<lparr>rule_name = ''path_security'', rule_description = ''paths'', severity = ''error'',
        applies_to = [IntentType.SAVE_FILE, IntentType.WRITE_TEXT_FILE],
        check = (\<lambda>plan context w. (Inr \<lparr>passed = False, message = ''forbidden'', details = None\<rparr>, w))\<rparr>
        :: unit GuardrailRule"
  let ?C = "\<lparr>rule_name = ''custom'', rule_description = ''blocks'', severity = ''critical'',
        applies_to = [],
        check = (\<lambda>plan context w. (Inr \<lparr>passed = False, message = ''blocked'', details = None\<rparr>, w))\<rparr>
        :: unit GuardrailRule"
  have e: "check_plan [?E] ?P None () = (fst (check_plan [?E] ?P None ()), ())"
    by (simp add: prod_eq_iff)
  have c: "check_plan [?C] ?P None () = (fst (check_plan [?C] ?P None ()), ())"
    by (simp add: prod_eq_iff)
  have ne: "\<forall>rule \<in> set [?E]. severity rule \<noteq> ''critical''"
    by simp
  have split: "[?C] = [] @ ?C # [] \<and> is_rule_applicable ?C ?P
      \<and> check_rules [] ?P None (initial_results ?P) () = (initial_results ?P, ())
      \<and> check ?C ?P None () = (Inr \<lparr>passed = False, message = ''blocked'', details = None\<rparr>, ())
      \<and> \<not> passed \<lparr>passed = False, message = ''blocked'', details = None\<rparr>"
    by (simp add: is_rule_applicable_def)
  have s: "severity ?C = ''critical''" by simp
  have split_e: "[?E] = [] @ ?E # [] \<and> is_rule_applicable ?E ?P
      \<and> check_rules [] ?P None (initial_results ?P) () = (initial_results ?P, ())
      \<and> check ?E ?P None () = (Inr \<lparr>passed = False, message = ''forbidden'', details = None\<rparr>, ())
      \<and> \<not> passed \<lparr>passed = False, message = ''forbidden'', details = None\<rparr>"
    by (simp add: is_rule_applicable_def)
  have se: "severity ?E = ''error''" by simp
  have "can_execute (fst (check_plan [?E] ?P None ()))"
    using check_plan_severity_aggregation [OF e] ne by blast
  moreover have "\<not> overall_passed (fst (check_plan [?E] ?P None ()))"
    using check_plan_severity_aggregation [OF e] split_e se by blast
  moreover have "\<not> can_execute (fst (check_plan [?C] ?P None ()))"
    using check_plan_severity_aggregation [OF c] split s by blast
  ultimately show ?thesis by simp
qed

text \<open>
  C9.  The verdict's requires_confirmation starts as the plan's own flag; evaluating
  rules never turns it from true to false; so a plan that requires confirmation gives
  a verdict that requires confirmation, and when every recorded rule result passed the
  verdict's flag is exactly the plan's.
\<close>

theorem check_plan_keeps_plan_confirmation:
  fixes w :: 'w
  assumes "check_plan rules plan ctx w = (v, w')"
  shows "sc_requires_confirmation (initial_results plan) = requires_confirmation plan
     \<and> (requires_confirmation plan \<longrightarrow> sc_requires_confirmation v)
     \<and> ((\<forall>ri \<in> set (rule_results v). ri_passed ri) \<longrightarrow>
          sc_requires_confirmation v = requires_confirmation plan)
     \<and> (\<forall>rs results (w0 :: 'w). sc_requires_confirmation results \<longrightarrow>
          sc_requires_confirmation (fst (check_rules rs plan ctx results w0)))"
proof -
  have v: "v = fst (check_rules rules plan ctx (initial_results plan) w)"
    using assms by (simp add: check_plan_def)
  have i: "sc_requires_confirmation (initial_results plan) = requires_confirmation plan"
    by (simp add: initial_results_def)
  have m: "sc_requires_confirmation results \<longrightarrow>
          sc_requires_confirmation (fst (check_rules rs plan ctx results w0))"
    for rs results and w0 :: 'w
    using check_rules_monotone [of rs plan ctx results w0] by simp
  have a: "requires_confirmation plan \<longrightarrow> sc_requires_confirmation v"
    unfolding v using m [of "initial_results plan" rules w] i by simp
  have wn: "sc_warnings v =
         filter (\<lambda>ri. \<not> ri_passed ri \<and> ri_severity ri = ''warning'') (rule_results v)"
    unfolding v by (rule inv_sc_warnings) (simp add: initial_results_def)
  have rc: "sc_requires_confirmation v = (requires_confirmation plan \<or> sc_warnings v \<noteq> [])"
    unfolding v by (rule inv_requires_confirmation) (simp add: initial_results_def)
  have b: "(\<forall>ri \<in> set (rule_results v). ri_passed ri) \<longrightarrow>
          sc_requires_confirmation v = requires_confirmation plan"
    using rc wn by (simp add: filter_empty_conv)
  show ?thesis
    using i a b m by blast
qed

theorem check_plan_keeps_plan_confirmation_witness:
  "sc_requires_confirmation (fst (check_plan
      [\<lparr>rule_name = ''always_ok'', rule_description = ''passes'', severity = ''warning'',
        applies_to = [],
        check = (\<lambda>plan context w. (Inr \<lparr>passed = True, message = ''ok'', details = None\<rparr>, w))\<rparr>]
      \<lparr>plan_id = ''p2'',
        intent = \<lparr>intent_type = IntentType.SAVE_FILE, confidence = 1, slots = [],
                  original_text = ''save'', normalized_text = None\<rparr>,
        actions = [], summary = ''s'', requires_confirmation = True,
        estimated_duration = 3, risk_level = ''medium''\<rparr>
      None ()))"
proof -
  let ?P = "\<lparr>plan_id = ''p2'',
        intent = \<lparr>intent_type = IntentType.SAVE_FILE, confidence = 1, slots = [],
                  original_text = ''save'', normalized_text = None\<rparr>,
        actions = [], summary = ''s'', requires_confirmation = True,
        estimated_duration = 3, risk_level = ''medium''\<rparr>"
  let ?R = "\<lparr>rule_name = ''always_ok'', rule_description = ''passes'', severity = ''warning'',
        applies_to = [],
        check = (\<lambda>plan context w. (Inr \<lparr>passed = True, message = ''ok'', details = None\<rparr>, w))\<rparr>
        :: unit GuardrailRule"
  have h: "check_plan [?R] ?P None () = (fst (check_plan [?R] ?P None ()), ())"
    by (simp add: prod_eq_iff)
  have "requires_confirmation ?P" by simp
  with check_plan_keeps_plan_confirmation [OF h] show ?thesis by blast
qed

subsection \<open>Plan generation and optimisation\<close>

lemma str_nat_digits:
  "str_nat 0 = ''0''" "str_nat 1 = ''1''" "str_nat 2 = ''2''" "str_nat 3 = ''3''"
  "str_nat 4 = ''4''" "str_nat 5 = ''5''" "str_nat 6 = ''6''" "str_nat 7 = ''7''"
  "str_nat 8 = ''8''" "str_nat 9 = ''9''"
  "str_nat (Suc 0) = ''1''" "str_nat (Suc (Suc 0)) = ''2''" "str_nat (Suc (Suc (Suc 0))) = ''3''"
  by code_simp+

lemma generate_open_app:
  "generate_plan
     \<lparr>repr = (\<lambda>v. []), path_is_allowed = (\<lambda>allowed p. Inr True)\<rparr>
     (PlanGenerator_init
        \<lparr>require_confirmation_for_write = True,
          allowed_write_paths = [''~/Documents'', ''~/Desktop'', ''~/Downloads'']\<rparr>
        \<lparr>skills = (\<lambda>n. if n = ''open_app''
                         then Some \<lparr>validate_parameters = (\<lambda>p. Inr True)\<rparr> else None)\<rparr>)
     \<lparr>intent_type = IntentType.OPEN_APP, confidence = 0.95,
       slots = [(''app_name'', PStr ''Notepad'')], original_text = ''open notepad'',
       normalized_text = None\<rparr>
     None ''plan-1''
   = Inr \<lparr>plan_id = ''plan-1'',
          intent = \<lparr>intent_type = IntentType.OPEN_APP, confidence = 0.95,
                    slots = [(''app_name'', PStr ''Notepad'')], original_text = ''open notepad'',
                    normalized_text = None\<rparr>,
          actions =
            [\<lparr>action_type = ActionType.SCREENSHOT, parameters = [],
              description = ''Capture d'' @ [CHR 0x27, CHR 0xE9] @ ''tat initial'', timeout = 5\<rparr>,
             \<lparr>action_type = ActionType.SCREENSHOT,
              parameters = [(''skill_name'', PStr ''open_app''),
                            (''skill_parameters'', PDict [(''app_name'', PStr ''Notepad'')])],
              description = ''Ouverture de l'' @ [CHR 0x27] @ ''application Notepad'', timeout = 5\<rparr>,
             \<lparr>action_type = ActionType.WAIT, parameters = [(''duration'', PFloat 2)],
              description = ''Attente du lancement de l'' @ [CHR 0x27] @ ''application'', timeout = 5\<rparr>],
          summary = ''Ouvrir l'' @ [CHR 0x27] @ ''application Notepad (en 3 '' @ [CHR 0xE9] @ ''tapes)'',
          requires_confirmation = False, estimated_duration = 5, risk_level = ''low''\<rparr>"
  by (simp add: generate_plan_def generate_plan_body_def PlanGenerator_init_def
      make_action_def process_action_definition_def get_skill_info_def generate_plan_summary_def
      should_require_confirmation_def estimate_duration_def dict_get_default_def py_replace_def
      str_nat_digits Let_def)

lemma optimize_open_app:
  "optimize_plan
     \<lparr>plan_id = ''plan-1'',
          intent = \<lparr>intent_type = IntentType.OPEN_APP, confidence = 0.95,
                    slots = [(''app_name'', PStr ''Notepad'')], original_text = ''open notepad'',
                    normalized_text = None\<rparr>,
          actions =
            [\<lparr>action_type = ActionType.SCREENSHOT, parameters = [],
              description = ''Capture d'' @ [CHR 0x27, CHR 0xE9] @ ''tat initial'', timeout = 5\<rparr>,
             \<lparr>action_type = ActionType.SCREENSHOT,
              parameters = [(''skill_name'', PStr ''open_app''),
                            (''skill_parameters'', PDict [(''app_name'', PStr ''Notepad'')])],
              description = ''Ouverture de l'' @ [CHR 0x27] @ ''application Notepad'', timeout = 5\<rparr>,
             \<lparr>action_type = ActionType.WAIT, parameters = [(''duration'', PFloat 2)],
              description = ''Attente du lancement de l'' @ [CHR 0x27] @ ''application'', timeout = 5\<rparr>],
          summary = ''Ouvrir l'' @ [CHR 0x27] @ ''application Notepad (en 3 '' @ [CHR 0xE9] @ ''tapes)'',
          requires_confirmation = False, estimated_duration = 5, risk_level = ''low''\<rparr>
     None
   = \<lparr>plan_id = ''plan-1'',
          intent = \<lparr>intent_type = IntentType.OPEN_APP, confidence = 0.95,
                    slots = [(''app_name'', PStr ''Notepad'')], original_text = ''open notepad'',
                    normalized_text = None\<rparr>,
          actions =
            [\<lparr>action_type = ActionType.SCREENSHOT, parameters = [],
              description = ''Capture d'' @ [CHR 0x27, CHR 0xE9] @ ''tat initial'', timeout = 5\<rparr>,
             \<lparr>action_type = ActionType.WAIT, parameters = [(''duration'', PFloat 2)],
              description = ''Attente du lancement de l'' @ [CHR 0x27] @ ''application'', timeout = 5\<rparr>],
          summary = ''Ouvrir l'' @ [CHR 0x27] @ ''application Notepad (en 3 '' @ [CHR 0xE9] @ ''tapes)'',
          requires_confirmation = False, estimated_duration = 3, risk_level = ''low''\<rparr>"
  by (simp add: optimize_plan_def merge_similar_actions_def recalculate_duration_def
      dict_get_default_def Let_def)

lemma generate_plan_no_template:
  assumes "templates self (intent_type intent') = None"
  shows "generate_plan rt self intent' ctx new_id =
     Inl (PlanGenerationError (''Erreur g'' @ [CHR 0xE9] @ ''n'' @ [CHR 0xE9] @ ''ration plan: Pas de template pour ''
                               @ IntentType_value (intent_type intent')))"
  using assms by (simp add: generate_plan_def generate_plan_body_def)

text \<open>
  C5 (as amended).  For every intent whose type has no plan template,
  \<open>generate_plan\<close> raises \<open>PlanGenerationError\<close>, and \<open>create_plan\<close> fails by raising a
  \<open>PlannerError\<close> whose message quotes the message of that \<open>PlanGenerationError\<close>; the
  call increments \<open>plans_generated\<close> and \<open>plans_rejected\<close> and changes nothing else: the
  plan cache and \<open>plans_approved\<close> are as before, and no rule was called.  Of the
  intent types, \<open>UNKNOWN\<close> is the one without a template in a new generator.
\<close>

theorem create_plan_no_template:
  fixes w :: 'w and self :: "'w PlannerManager"
  assumes "templates (plan_generator self) (intent_type intent') = None"
  shows "generate_plan rt (plan_generator self) intent' ctx new_id =
       Inl (PlanGenerationError (''Erreur g'' @ [CHR 0xE9] @ ''n'' @ [CHR 0xE9] @ ''ration plan: Pas de template pour ''
                                 @ IntentType_value (intent_type intent')))
     \<and> create_plan rt self intent' ctx optimize new_id w =
       (Inl (PlannerError (''Erreur planification: Erreur g'' @ [CHR 0xE9] @ ''n'' @ [CHR 0xE9] @ ''ration plan: Pas de template pour ''
                           @ IntentType_value (intent_type intent'))),
        self\<lparr>plans_generated := plans_generated self + 1,
             plans_rejected := plans_rejected self + 1\<rparr>,
        w)
     \<and> plan_cache (fst (snd (create_plan rt self intent' ctx optimize new_id w))) = plan_cache self
     \<and> plans_rejected (fst (snd (create_plan rt self intent' ctx optimize new_id w)))
         = plans_rejected self + 1
     \<and> (\<forall>t. (initialize_templates t = None) = (t = IntentType.UNKNOWN))"
proof -
  have g: "generate_plan rt (plan_generator self) intent' ctx new_id =
       Inl (PlanGenerationError (''Erreur g'' @ [CHR 0xE9] @ ''n'' @ [CHR 0xE9] @ ''ration plan: Pas de template pour ''
                                 @ IntentType_value (intent_type intent')))"
    using assms by (rule generate_plan_no_template)
  have c: "create_plan rt self intent' ctx optimize new_id w =
       (Inl (PlannerError (''Erreur planification: Erreur g'' @ [CHR 0xE9] @ ''n'' @ [CHR 0xE9] @ ''ration plan: Pas de template pour ''
                           @ IntentType_value (intent_type intent'))),
        self\<lparr>plans_generated := plans_generated self + 1,
             plans_rejected := plans_rejected self + 1\<rparr>,
        w)"
    using g by (simp add: create_plan_def Let_def)
  have t: "(initialize_templates t = None) = (t = IntentType.UNKNOWN)" for t
    by (cases t) simp_all
  show ?thesis
    using g c t by simp
qed

theorem create_plan_no_template_witness:
  "fst (snd (create_plan
      \<lparr>repr = (\<lambda>v. []), path_is_allowed = (\<lambda>allowed p. Inr True)\<rparr>
      \<lparr>plan_generator = PlanGenerator_init
          \<lparr>require_confirmation_for_write = True, allowed_write_paths = []\<rparr>
          \<lparr>skills = (\<lambda>n. None)\<rparr>,
        guardrails = [], plans_generated = 4, plans_approved = 3, plans_rejected = 1,
        plan_cache = Map.empty\<rparr>
      \<lparr>intent_type = IntentType.UNKNOWN, confidence = 0.3, slots = [],
        original_text = ''blah'', normalized_text = None\<rparr>
      None True ''plan-9'' ()))
   = \<lparr>plan_generator = PlanGenerator_init
          \<lparr>require_confirmation_for_write = True, allowed_write_paths = []\<rparr>
          \<lparr>skills = (\<lambda>n. None)\<rparr>,
        guardrails = [], plans_generated = 5, plans_approved = 3, plans_rejected = 2,
        plan_cache = Map.empty\<rparr>"
proof -
  have h: "templates (plan_generator
      \<lparr>plan_generator = PlanGenerator_init
          \<lparr>require_confirmation_for_write = True, allowed_write_paths = []\<rparr>
          \<lparr>skills = (\<lambda>n. None)\<rparr>,
        guardrails = [], plans_generated = 4, plans_approved = 3, plans_rejected = 1,
        plan_cache = Map.empty\<rparr>)
      (intent_type \<lparr>intent_type = IntentType.UNKNOWN, confidence = 0.3, slots = [],
        original_text = ''blah'', normalized_text = None\<rparr>) = None"
    by (simp add: PlanGenerator_init_def)
  show ?thesis
    using create_plan_no_template [OF h, of _ None "''plan-9''" True "()"] by simp
qed

theorem create_plan_raises_PlannerError:
  "fst (create_plan
      \<lparr>repr = (\<lambda>v. []), path_is_allowed = (\<lambda>allowed p. Inr True)\<rparr>
      \<lparr>plan_generator = PlanGenerator_init
          \<lparr>require_confirmation_for_write = True, allowed_write_paths = []\<rparr>
          \<lparr>skills = (\<lambda>n. None)\<rparr>,
        guardrails = [], plans_generated = 0, plans_approved = 0, plans_rejected = 0,
        plan_cache = Map.empty\<rparr>
      \<lparr>intent_type = IntentType.UNKNOWN, confidence = 0.3, slots = [],
        original_text = ''blah'', normalized_text = None\<rparr>
      None True ''plan-9'' ())
   = Inl (PlannerError (''Erreur planification: Erreur g'' @ [CHR 0xE9] @ ''n'' @ [CHR 0xE9] @ ''ration plan: Pas de template pour unknown''))
   \<and> fst (create_plan
      \<lparr>repr = (\<lambda>v. []), path_is_allowed = (\<lambda>allowed p. Inr True)\<rparr>
      \<lparr>plan_generator = PlanGenerator_init
          \<lparr>require_confirmation_for_write = True, allowed_write_paths = []\<rparr>
          \<lparr>skills = (\<lambda>n. None)\<rparr>,
        guardrails = [], plans_generated = 0, plans_approved = 0, plans_rejected = 0,
        plan_cache = Map.empty\<rparr>
      \<lparr>intent_type = IntentType.UNKNOWN, confidence = 0.3, slots = [],
        original_text = ''blah'', normalized_text = None\<rparr>
      None True ''plan-9'' ())
   \<noteq> Inl (PlanGenerationError (''Erreur g'' @ [CHR 0xE9] @ ''n'' @ [CHR 0xE9] @ ''ration plan: Pas de template pour unknown''))"
  by (simp add: create_plan_def generate_plan_def generate_plan_body_def PlanGenerator_init_def Let_def)

text \<open>
  C3.  The plan generated for "open the application Notepad" has three actions, the
  second of which invokes the skill \<open>open_app\<close>; \<open>optimize_plan\<close> returns a plan with
  two actions, a screenshot and a wait, and no skill invocation: the skill action,
  typed \<open>SCREENSHOT\<close> as a placeholder, is removed as a consecutive screenshot.
\<close>

theorem optimize_plan_drops_skill_action:
  "(case generate_plan
     \<lparr>repr = (\<lambda>v. []), path_is_allowed = (\<lambda>allowed p. Inr True)\<rparr>
     (PlanGenerator_init
        \<lparr>require_confirmation_for_write = True,
          allowed_write_paths = [''~/Documents'', ''~/Desktop'', ''~/Downloads'']\<rparr>
        \<lparr>skills = (\<lambda>n. if n = ''open_app''
                         then Some \<lparr>validate_parameters = (\<lambda>p. Inr True)\<rparr> else None)\<rparr>)
     \<lparr>intent_type = IntentType.OPEN_APP, confidence = 0.95,
       slots = [(''app_name'', PStr ''Notepad'')], original_text = ''open notepad'',
       normalized_text = None\<rparr>
     None ''plan-1'' of
     Inl e \<Rightarrow> False
   | Inr plan \<Rightarrow>
       map (\<lambda>a. (action_type a, dict_get (parameters a) ''skill_name'')) (actions plan)
         = [(ActionType.SCREENSHOT, None),
            (ActionType.SCREENSHOT, Some (PStr ''open_app'')),
            (ActionType.WAIT, None)]
       \<and> map (\<lambda>a. (action_type a, dict_get (parameters a) ''skill_name''))
             (actions (optimize_plan plan None))
         = [(ActionType.SCREENSHOT, None), (ActionType.WAIT, None)])"
  unfolding generate_open_app sum.case optimize_open_app
  by (simp add: dict_get_def)

subsection \<open>Validation and the execution decision\<close>

lemma validate_action_valid_iff:
  assumes "validate_action rt self action = Inr av"
  shows "valid av = (v_errors av = [])"
proof -
  define v0 where "v0 = \<lparr>valid = True, v_errors = [], v_warnings = []\<rparr>"
  define v1 where "v1 =
    (if description action = []
     then v0\<lparr>v_warnings := v_warnings v0 @ [''Description d'' @ [CHR 0x27] @ ''action manquante'']\<rparr> else v0)"
  define v2 where "v2 =
    (if action_type action = ActionType.TYPE_TEXT
        \<and> \<not> py_truthy (dict_get_default (parameters action) ''text'' (PStr []))
     then v1\<lparr>v_errors := v_errors v1 @ [''Texte '' @ [CHR 0xE0] @ '' saisir manquant''], valid := False\<rparr>
     else v1)"
  have v2: "valid v2 = (v_errors v2 = [])"
    by (simp add: v2_def v1_def v0_def)
  have eq: "validate_action rt self action =
     (case dict_get (parameters action) ''skill_name'' of
           None \<Rightarrow> Inr v2
         | Some skill_name \<Rightarrow>
             (case get_skill (skill_manager self) skill_name of
                Inl e \<Rightarrow> Inl e
              | Inr None \<Rightarrow>
                  Inr (v2\<lparr>v_errors := v_errors v2
                                       @ [''Comp'' @ [CHR 0xE9] @ ''tence '' @ [CHR 0x27] @ py_str (repr rt) skill_name @ [CHR 0x27] @ '' non trouv'' @ [CHR 0xE9] @ ''e''],
                                   valid := False\<rparr>)
              | Inr (Some skill) \<Rightarrow>
                  (case validate_parameters skill
                          (dict_get_default (parameters action) ''skill_parameters'' (PDict [])) of
                        Inl e \<Rightarrow> Inl e
                      | Inr ok \<Rightarrow>
                          (if \<not> ok
                           then Inr (v2\<lparr>v_errors := v_errors v2
                                       @ [''Param'' @ [CHR 0xE8] @ ''tres invalides pour '' @ [CHR 0x27] @ py_str (repr rt) skill_name @ [CHR 0x27]],
                                     valid := False\<rparr>)
                           else Inr v2))))"
    unfolding validate_action_def Let_def v2_def v1_def v0_def ..
  show ?thesis
    using assms v2 unfolding eq
    by (auto split: option.splits sum.splits if_splits)
qed

lemma validate_actions_valid_iff:
  assumes "validate_actions rt self acts i v = (eo, v')" and "valid v = (v_errors v = [])"
  shows "valid v' = (v_errors v' = [])"
  using assms
proof (induction acts arbitrary: i v)
  case Nil
  then show ?case by simp
next
  case (Cons a acts)
  show ?case
  proof (cases "validate_action rt self a")
    case (Inl e)
    with Cons.prems show ?thesis by simp
  next
    case (Inr av)
    have av: "valid av = (v_errors av = [])"
      using Inr by (rule validate_action_valid_iff)
    let ?v1 = "(if \<not> valid av
                  then v\<lparr>v_errors := v_errors v
                                    @ map (\<lambda>error. ''Action '' @ str_nat i @ '': '' @ error) (v_errors av),
                         valid := False\<rparr>
                  else v)"
    let ?v2 = "?v1\<lparr>v_warnings := v_warnings ?v1
                  @ map (\<lambda>warning. ''Action '' @ str_nat i @ '': '' @ warning) (v_warnings av)\<rparr>"
    have rest: "validate_actions rt self acts (Suc i) ?v2 = (eo, v')"
      using Cons.prems(1) Inr by (simp add: Let_def)
    have inv: "valid ?v2 = (v_errors ?v2 = [])"
      using av Cons.prems(2) by simp
    from Cons.IH [OF rest inv] show ?thesis .
  qed
qed

lemma validate_plan_valid_iff:
  "valid (validate_plan rt self plan) = (v_errors (validate_plan rt self plan) = [])"
proof -
  define v0 where "v0 = \<lparr>valid = True, v_errors = [], v_warnings = []\<rparr>"
  define v1 where "v1 =
    (if actions plan = []
     then v0\<lparr>v_errors := v_errors v0 @ [''Plan vide - aucune action d'' @ [CHR 0xE9] @ ''finie''], valid := False\<rparr>
     else v0)"
  obtain eo v2 where l: "validate_actions rt self (actions plan) 0 v1 = (eo, v2)"
    by (cases "validate_actions rt self (actions plan) 0 v1")
  have "valid v1 = (v_errors v1 = [])" by (simp add: v1_def v0_def)
  with l have v2: "valid v2 = (v_errors v2 = [])" by (rule validate_actions_valid_iff)
  have vp: "validate_plan rt self plan =
      (case validate_actions rt self (actions plan) 0 v1 of
         (None, validation2) \<Rightarrow>
             validation2\<lparr>v_warnings := v_warnings validation2 @ check_plan_coherence plan\<rparr>
       | (Some e, validation2) \<Rightarrow>
             validation2\<lparr>valid := False,
                         v_errors := v_errors validation2 @ [''Erreur validation: '' @ exn_str e]\<rparr>)"
    unfolding validate_plan_def Let_def v1_def v0_def ..
  show ?thesis
    unfolding vp l using v2 by (cases eo) simp_all
qed

lemma decision_blocking_reasons:
  "blocking_reasons (make_execution_decision pv sc) =
     (if \<not> valid pv then v_errors pv else [])
     @ (if \<not> can_execute sc then map ri_message (sc_errors sc) else [])"
  by (simp add: make_execution_decision_def Let_def)

lemma decision_warnings:
  "d_warnings (make_execution_decision pv sc) = v_warnings pv @ map ri_message (sc_warnings sc)"
  by (simp add: make_execution_decision_def Let_def)

lemma decision_approved:
  "approved (make_execution_decision pv sc) = (blocking_reasons (make_execution_decision pv sc) = [])"
  by (simp add: make_execution_decision_def Let_def)

lemma decision_requires_confirmation:
  "d_requires_confirmation (make_execution_decision pv sc) =
     (blocking_reasons (make_execution_decision pv sc) = []
      \<and> (sc_requires_confirmation sc \<or> d_warnings (make_execution_decision pv sc) \<noteq> []))"
  by (simp add: make_execution_decision_def Let_def)

lemma create_plan_result:
  fixes w :: 'w
  assumes "create_plan rt self intent' ctx optimize new_id w = (Inr result, self', w')"
  shows "\<exists>plan. r_validation result = validate_plan rt (plan_generator self) plan
     \<and> r_security_check result = fst (check_plan (guardrails self) plan ctx w)
     \<and> r_execution_decision result =
         make_execution_decision (r_validation result) (r_security_check result)"
proof (cases "generate_plan rt (plan_generator self) intent' ctx new_id")
  case (Inl e)
  with assms show ?thesis by (simp add: create_plan_def Let_def)
next
  case (Inr plan0)
  let ?plan = "if optimize then optimize_plan plan0 ctx else plan0"
  have "r_validation result = validate_plan rt (plan_generator self) ?plan
     \<and> r_security_check result = fst (check_plan (guardrails self) ?plan ctx w)
     \<and> r_execution_decision result =
         make_execution_decision (r_validation result) (r_security_check result)"
    using assms Inr by (simp add: create_plan_def Let_def split_beta) (erule conjE, erule subst, simp)
  then show ?thesis by blast
qed

text \<open>
  C2.  For every decision \<open>create_plan\<close> returns, \<open>approved\<close> is true exactly when
  \<open>blocking_reasons\<close> is empty, and \<open>blocking_reasons\<close> is the list of the validation
  errors followed by the messages of the guardrail errors, the latter only when the
  verdict's \<open>can_execute\<close> is false.  The same holds for the decision taken on the
  validation of any plan and any verdict.
\<close>

theorem execution_decision_approved_iff:
  fixes w :: 'w
  assumes "create_plan rt self intent' ctx optimize new_id w = (Inr result, self', w')"
  shows "approved (r_execution_decision result) = (blocking_reasons (r_execution_decision result) = [])
     \<and> blocking_reasons (r_execution_decision result) =
         v_errors (r_validation result)
         @ (if \<not> can_execute (r_security_check result)
            then map ri_message (sc_errors (r_security_check result)) else [])
     \<and> (\<forall>pg plan sc.
           approved (make_execution_decision (validate_plan rt pg plan) sc)
             = (blocking_reasons (make_execution_decision (validate_plan rt pg plan) sc) = [])
         \<and> blocking_reasons (make_execution_decision (validate_plan rt pg plan) sc) =
             v_errors (validate_plan rt pg plan)
             @ (if \<not> can_execute sc then map ri_message (sc_errors sc) else []))"
proof -
  have gen: "approved (make_execution_decision (validate_plan rt pg plan) sc)
             = (blocking_reasons (make_execution_decision (validate_plan rt pg plan) sc) = [])
         \<and> blocking_reasons (make_execution_decision (validate_plan rt pg plan) sc) =
             v_errors (validate_plan rt pg plan)
             @ (if \<not> can_execute sc then map ri_message (sc_errors sc) else [])"
    for pg plan sc
  proof -
    have "(if \<not> valid (validate_plan rt pg plan) then v_errors (validate_plan rt pg plan) else [])
        = v_errors (validate_plan rt pg plan)"
      using validate_plan_valid_iff [of rt pg plan] by simp
    then show ?thesis
      using decision_blocking_reasons [of "validate_plan rt pg plan" sc]
        decision_approved [of "validate_plan rt pg plan" sc] by simp
  qed
  from create_plan_result [OF assms] obtain plan where
    v: "r_validation result = validate_plan rt (plan_generator self) plan"
    and d: "r_execution_decision result =
         make_execution_decision (r_validation result) (r_security_check result)"
    by blast
  have here: "approved (r_execution_decision result) = (blocking_reasons (r_execution_decision result) = [])
     \<and> blocking_reasons (r_execution_decision result) =
         v_errors (r_validation result)
         @ (if \<not> can_execute (r_security_check result)
            then map ri_message (sc_errors (r_security_check result)) else [])"
    unfolding d unfolding v by (rule gen)
  show ?thesis
    using here gen by blast
qed

theorem execution_decision_approved_iff_witness:
  "\<exists>result self' w'.
     create_plan
       \<lparr>repr = (\<lambda>v. []), path_is_allowed = (\<lambda>allowed p. Inr True)\<rparr>
       \<lparr>plan_generator = PlanGenerator_init
           \<lparr>require_confirmation_for_write = True,
             allowed_write_paths = [''~/Documents'', ''~/Desktop'', ''~/Downloads'']\<rparr>
           \<lparr>skills = (\<lambda>n. if n = ''open_app''
                            then Some \<lparr>validate_parameters = (\<lambda>p. Inr True)\<rparr> else None)\<rparr>,
         guardrails = [], plans_generated = 0, plans_approved = 0, plans_rejected = 0,
         plan_cache = Map.empty\<rparr>
       \<lparr>intent_type = IntentType.OPEN_APP, confidence = 0.95,
         slots = [(''app_name'', PStr ''Notepad'')], original_text = ''open notepad'',
         normalized_text = None\<rparr>
       None True ''plan-1'' ()
     = (Inr result, self', w')
     \<and> approved (r_execution_decision result)
         = (blocking_reasons (r_execution_decision result) = [])"
proof -
  let ?call = "create_plan
       \<lparr>repr = (\<lambda>v. []), path_is_allowed = (\<lambda>allowed p. Inr True)\<rparr>
       \<lparr>plan_generator = PlanGenerator_init
           \<lparr>require_confirmation_for_write = True,
             allowed_write_paths = [''~/Documents'', ''~/Desktop'', ''~/Downloads'']\<rparr>
           \<lparr>skills = (\<lambda>n. if n = ''open_app''
                            then Some \<lparr>validate_parameters = (\<lambda>p. Inr True)\<rparr> else None)\<rparr>,
         guardrails = [], plans_generated = 0, plans_approved = 0, plans_rejected = 0,
         plan_cache = Map.empty\<rparr>
       \<lparr>intent_type = IntentType.OPEN_APP, confidence = 0.95,
         slots = [(''app_name'', PStr ''Notepad'')], original_text = ''open notepad'',
         normalized_text = None\<rparr>
       None True ''plan-1'' ()"
  have "\<exists>result self' w'. ?call = (Inr result, self', w')"
    unfolding create_plan_def Let_def PlannerManager.simps generate_open_app sum.case
    by (simp add: split_beta)
  then obtain result self' w' where h: "?call = (Inr result, self', w')"
    by blast
  from execution_decision_approved_iff [OF h] h show ?thesis
    by blast
qed

text \<open>
  C6 (as amended).  For every decision, \<open>requires_confirmation\<close> is true exactly when
  the decision is approved and the verdict requires confirmation or the decision has a
  warning; the warnings are the validation warnings followed by the messages of the
  guardrail warnings.  So on an approved decision it is the disjunction, and on a
  rejected decision it is false.
\<close>

theorem decision_requires_confirmation_iff:
  "d_requires_confirmation (make_execution_decision pv sc) =
     (approved (make_execution_decision pv sc)
      \<and> (sc_requires_confirmation sc \<or> d_warnings (make_execution_decision pv sc) \<noteq> []))
   \<and> d_warnings (make_execution_decision pv sc) = v_warnings pv @ map ri_message (sc_warnings sc)"
  using decision_requires_confirmation [of pv sc] decision_approved [of pv sc]
    decision_warnings [of pv sc] by simp

theorem decision_requires_confirmation_iff_witness:
  "d_requires_confirmation
     (make_execution_decision
        \<lparr>valid = True, v_errors = [], v_warnings = []\<rparr>
        \<lparr>overall_passed = True, can_execute = True, sc_requires_confirmation = True,
          rule_results = [], sc_errors = [], sc_warnings = [], sc_info = []\<rparr>)
   \<and> \<not> d_requires_confirmation
     (make_execution_decision
        \<lparr>valid = False, v_errors = [''Plan vide - aucune action d'' @ [CHR 0xE9] @ ''finie''], v_warnings = []\<rparr>
        \<lparr>overall_passed = True, can_execute = True, sc_requires_confirmation = True,
          rule_results = [], sc_errors = [], sc_warnings = [], sc_info = []\<rparr>)"
proof -
  have a: "approved (make_execution_decision
        \<lparr>valid = True, v_errors = [], v_warnings = []\<rparr>
        \<lparr>overall_passed = True, can_execute = True, sc_requires_confirmation = True,
          rule_results = [], sc_errors = [], sc_warnings = [], sc_info = []\<rparr>)"
    by (simp add: make_execution_decision_def)
  have b: "\<not> approved (make_execution_decision
        \<lparr>valid = False, v_errors = [''Plan vide - aucune action d'' @ [CHR 0xE9] @ ''finie''], v_warnings = []\<rparr>
        \<lparr>overall_passed = True, can_execute = True, sc_requires_confirmation = True,
          rule_results = [], sc_errors = [], sc_warnings = [], sc_info = []\<rparr>)"
    by (simp add: make_execution_decision_def)
  show ?thesis
    using a b
      decision_requires_confirmation_iff
        [of "\<lparr>valid = True, v_errors = [], v_warnings = []\<rparr>"
            "\<lparr>overall_passed = True, can_execute = True, sc_requires_confirmation = True,
              rule_results = [], sc_errors = [], sc_warnings = [], sc_info = []\<rparr>"]
      decision_requires_confirmation_iff
        [of "\<lparr>valid = False, v_errors = [''Plan vide - aucune action d'' @ [CHR 0xE9] @ ''finie''], v_warnings = []\<rparr>"
            "\<lparr>overall_passed = True, can_execute = True, sc_requires_confirmation = True,
              rule_results = [], sc_errors = [], sc_warnings = [], sc_info = []\<rparr>"]
    by simp
qed

lemma generate_write_text_file:
  "generate_plan
     \<lparr>repr = (\<lambda>v. []), path_is_allowed = (\<lambda>allowed p. Inr True)\<rparr>
     (PlanGenerator_init
        \<lparr>require_confirmation_for_write = True,
          allowed_write_paths = [''~/Documents'', ''~/Desktop'', ''~/Downloads'']\<rparr>
        \<lparr>skills = (\<lambda>n. None)\<rparr>)
     \<lparr>intent_type = IntentType.WRITE_TEXT_FILE, confidence = 1,
       slots = [(''content'', PStr ''hello'')], original_text = ''write hello'',
       normalized_text = None\<rparr>
     None ''plan-2''
   = Inr \<lparr>plan_id = ''plan-2'',
          intent = \<lparr>intent_type = IntentType.WRITE_TEXT_FILE, confidence = 1,
                    slots = [(''content'', PStr ''hello'')], original_text = ''write hello'',
                    normalized_text = None\<rparr>,
          actions =
            [\<lparr>action_type = ActionType.SCREENSHOT,
              parameters = [(''skill_name'', PStr ''write_text_file''),
                            (''skill_parameters'', PDict [])],
              description = ''Cr'' @ [CHR 0xE9] @ ''ation et '' @ [CHR 0xE9] @ ''criture du fichier texte'', timeout = 5\<rparr>],
          summary = ''Cr'' @ [CHR 0xE9] @ ''er un fichier texte avec le contenu sp'' @ [CHR 0xE9] @ ''cifi'' @ [CHR 0xE9],
          requires_confirmation = True, estimated_duration = 5.05, risk_level = ''medium''\<rparr>"
  by (simp add: generate_plan_def generate_plan_body_def PlanGenerator_init_def
      make_action_def process_action_definition_def get_skill_info_def generate_plan_summary_def
      should_require_confirmation_def estimate_duration_def dict_get_default_def py_replace_def
      Let_def)

theorem rejected_decision_never_requires_confirmation:
  "(case fst (create_plan
       \<lparr>repr = (\<lambda>v. []), path_is_allowed = (\<lambda>allowed p. Inr True)\<rparr>
       \<lparr>plan_generator = PlanGenerator_init
           \<lparr>require_confirmation_for_write = True,
             allowed_write_paths = [''~/Documents'', ''~/Desktop'', ''~/Downloads'']\<rparr>
           \<lparr>skills = (\<lambda>n. None)\<rparr>,
         guardrails = [], plans_generated = 0, plans_approved = 0, plans_rejected = 0,
         plan_cache = Map.empty\<rparr>
       \<lparr>intent_type = IntentType.WRITE_TEXT_FILE, confidence = 1,
         slots = [(''content'', PStr ''hello'')], original_text = ''write hello'',
         normalized_text = None\<rparr>
       None True ''plan-2'' ()) of
     Inl e \<Rightarrow> False
   | Inr result \<Rightarrow>
       sc_requires_confirmation (r_security_check result)
       \<and> blocking_reasons (r_execution_decision result)
           = [''Action 0: Comp'' @ [CHR 0xE9] @ ''tence '' @ [CHR 0x27] @ ''write_text_file'' @ [CHR 0x27] @ '' non trouv'' @ [CHR 0xE9] @ ''e'']
       \<and> d_requires_confirmation (r_execution_decision result)
           \<noteq> (sc_requires_confirmation (r_security_check result)
               \<or> d_warnings (r_execution_decision result) \<noteq> []))"
  unfolding create_plan_def Let_def PlannerManager.simps generate_write_text_file sum.case
  by (simp add: split_beta optimize_plan_def merge_similar_actions_def recalculate_duration_def
      validate_plan_def validate_action_def check_plan_coherence_def check_plan_def
      initial_results_def make_execution_decision_def dict_get_def dict_get_default_def
      PlanGenerator_init_def str_nat_digits Let_def)

subsection \<open>Execution of a plan\<close>

lemma execute_action_skipped:
  assumes "dict_get (parameters action) ''skill_name'' = None"
  shows "execute_action svc action sid i env =
     (\<lparr>step_id = sid @ ''_'' @ str_nat i, status = SKIPPED,
       error_message = Some (''Actions primitives non impl'' @ [CHR 0xE9] @ ''ment'' @ [CHR 0xE9] @ ''es''), step_output = None\<rparr>, env)"
  using assms by (simp add: execute_action_def)

lemma loop_state_invariant:
  assumes "loop_state svc sid acts env0 i rs env b"
  shows "length rs = i \<and> i \<le> length acts
     \<and> (\<forall>k. Suc k < length rs \<longrightarrow> status (rs ! k) \<noteq> FAILED)
     \<and> b = (rs \<noteq> [] \<and> status (last rs) = FAILED)"
  using assms
proof (induction rule: loop_state.induct)
  case loop_enter
  show ?case by simp
next
  case (loop_iterate i rs env r env1)
  from loop_iterate.IH have len: "length rs = i"
    and prev: "\<forall>k. Suc k < length rs \<longrightarrow> status (rs ! k) \<noteq> FAILED"
    and last: "\<not> (rs \<noteq> [] \<and> status (last rs) = FAILED)"
    by simp_all
  have "status ((rs @ [r]) ! k) \<noteq> FAILED" if k: "Suc k < length (rs @ [r])" for k
  proof (cases "Suc k < length rs")
    case True
    with prev show ?thesis by (simp add: nth_append)
  next
    case False
    with k have kl: "Suc k = length rs" by simp
    then have ne: "rs \<noteq> []" by auto
    from kl have kk: "k = length rs - 1" by simp
    have "(rs @ [r]) ! k = last rs"
      using kl ne by (simp add: kk nth_append last_conv_nth)
    with last ne show ?thesis by simp
  qed
  then show ?case
    using len loop_iterate.hyps(2) by simp
qed

lemma execute_actions_reaches:
  assumes "loop_state svc sid acts env0 i rs env False"
    and "execute_actions svc sid (drop i acts) i rs env = (rs', env')"
  shows "\<exists>b. loop_state svc sid acts env0 (length rs') rs' env' b \<and> (b \<or> length rs' = length acts)"
  using assms
proof (induction "length acts - i" arbitrary: i rs env)
  case 0
  from loop_state_invariant [OF 0(2)] have "length rs = i" "i \<le> length acts" by simp_all
  with 0(1) have il: "i = length acts" by simp
  with 0(3) have "rs' = rs" "env' = env" by simp_all
  with 0(2) il \<open>length rs = i\<close> show ?case by auto
next
  case (Suc n)
  then have lt: "i < length acts" by simp
  then have d: "drop i acts = acts ! i # drop (Suc i) acts"
    by (simp add: Cons_nth_drop_Suc)
  obtain r env1 where st: "execute_action svc (acts ! i) sid i env = (r, env1)"
    by (cases "execute_action svc (acts ! i) sid i env")
  have next_state: "loop_state svc sid acts env0 (Suc i) (rs @ [r]) env1 (status r = FAILED)"
    using Suc.prems(1) lt st by (rule loop_iterate)
  from loop_state_invariant [OF next_state] have len: "length (rs @ [r]) = Suc i" by simp
  show ?case
  proof (cases "status r = FAILED")
    case True
    with Suc.prems(2) d st have "rs' = rs @ [r]" "env' = env1" by simp_all
    with next_state True len show ?thesis by auto
  next
    case False
    with Suc.prems(2) d st
    have rest: "execute_actions svc sid (drop (Suc i) acts) (Suc i) (rs @ [r]) env1 = (rs', env')"
      by simp
    have n: "n = length acts - Suc i" using Suc.hyps(2) by simp
    from next_state False
    have ns: "loop_state svc sid acts env0 (Suc i) (rs @ [r]) env1 False" by simp
    from Suc.hyps(1) [OF n ns rest] show ?thesis .
  qed
qed

lemma execute_actions_length_ge:
  "execute_actions svc sid acts i rs0 env = (rs, env') \<Longrightarrow> length rs0 \<le> length rs"
proof (induction acts arbitrary: i rs0 env)
  case Nil
  then show ?case by simp
next
  case (Cons a acts)
  obtain r env1 where st: "execute_action svc a sid i env = (r, env1)"
    by (cases "execute_action svc a sid i env")
  show ?case
  proof (cases "status r = FAILED")
    case True
    with Cons.prems st show ?thesis by auto
  next
    case False
    with Cons.prems st
    have "execute_actions svc sid acts (Suc i) (rs0 @ [r]) env1 = (rs, env')" by simp
    from Cons.IH [OF this] show ?thesis by simp
  qed
qed

lemma execute_actions_take:
  "execute_actions svc sid acts i rs0 env = (rs, env') \<Longrightarrow>
   execute_actions svc sid (take (length rs - length rs0) acts) i rs0 env = (rs, env')"
proof (induction acts arbitrary: i rs0 env)
  case Nil
  then show ?case by simp
next
  case (Cons a acts)
  obtain r env1 where st: "execute_action svc a sid i env = (r, env1)"
    by (cases "execute_action svc a sid i env")
  show ?case
  proof (cases "status r = FAILED")
    case True
    with Cons.prems st have "rs = rs0 @ [r]" "env' = env1" by simp_all
    with st True show ?thesis by simp
  next
    case False
    with Cons.prems st
    have rest: "execute_actions svc sid acts (Suc i) (rs0 @ [r]) env1 = (rs, env')" by simp
    from execute_actions_length_ge [OF rest] have ge: "Suc (length rs0) \<le> length rs" by simp
    define m where "m = length rs - Suc (length rs0)"
    have "length rs - length rs0 = Suc m"
      using ge by (simp add: m_def)
    then have t: "take (length rs - length rs0) (a # acts)
        = a # take (length rs - length (rs0 @ [r])) acts"
      by (simp add: m_def)
    from Cons.IH [OF rest] show ?thesis
      unfolding t using st False by simp
  qed
qed

lemma execute_plan_session:
  fixes svc :: "('e, 'o) Collaborators"
  assumes fresh: "active_sessions new_id = None"
    and run: "execute_plan svc cache active_sessions pid new_id env0 = (out, sessions', env'')"
    and reg: "sessions' new_id = Some s"
  shows "\<exists>plan env1. cache pid = Some plan \<and> session_plan s = plan
     \<and> step_results s = fst (execute_actions svc new_id (actions plan) 0 [] env1)"
proof (cases "cache pid")
  case None
  with run have "sessions' = active_sessions" by (simp add: execute_plan_def)
  with fresh reg show ?thesis by simp
next
  case (Some plan)
  obtain o1 env1 where g1: "get_current_observation svc env0 = (o1, env1)"
    by (cases "get_current_observation svc env0")
  show ?thesis
  proof (cases o1)
    case (Inl e)
    with Some g1 run have "sessions' = active_sessions" by (simp add: execute_plan_def)
    with fresh reg show ?thesis by simp
  next
    case (Inr obs)
    obtain rs env2 where ex: "execute_actions svc new_id (actions plan) 0 [] env1 = (rs, env2)"
      by (cases "execute_actions svc new_id (actions plan) 0 [] env1")
    obtain o2 env3 where g2: "get_current_observation svc env2 = (o2, env3)"
      by (cases "get_current_observation svc env2")
    have "session_plan s = plan \<and> step_results s = rs"
    proof (cases o2)
      case (Inl e)
      with Some g1 Inr ex g2 run
      have "sessions' new_id = Some
          \<lparr>session_id = new_id, session_plan = plan, session_status = FAILED,
           step_results = rs, initial_observation = Some obs, final_observation = None\<rparr>"
        by (auto simp: execute_plan_def Let_def)
      with reg show ?thesis by auto
    next
      case obs2: (Inr obs2)
      with Some g1 Inr ex g2 run
      have "sessions' new_id = Some
          \<lparr>session_id = new_id, session_plan = plan,
           session_status = (if success_rate rs > 0.8 then SUCCESS else FAILED),
           step_results = rs, initial_observation = Some obs, final_observation = Some obs2\<rparr>"
        by (auto simp: execute_plan_def Let_def)
      with reg show ?thesis by auto
    qed
    with ex have "session_plan s = plan
        \<and> step_results s = fst (execute_actions svc new_id (actions plan) 0 [] env1)"
      by simp
    with Some show ?thesis by blast
  qed
qed

lemma execute_actions_terminal:
  assumes "execute_actions svc sid acts 0 [] env0 = (rs, env')"
  shows "(\<exists>b. loop_state svc sid acts env0 (length rs) rs env' b \<and> (b \<or> length rs = length acts))
     \<and> length rs \<le> length acts
     \<and> (length rs < length acts \<longrightarrow> rs \<noteq> [] \<and> status (last rs) = FAILED)
     \<and> (\<forall>k. Suc k < length rs \<longrightarrow> status (rs ! k) \<noteq> FAILED)
     \<and> execute_actions svc sid (take (length rs) acts) 0 [] env0 = (rs, env')"
proof -
  have start: "loop_state svc sid acts env0 0 [] env0 False"
    by (rule loop_enter)
  from execute_actions_reaches [OF start] assms
  obtain b where ls: "loop_state svc sid acts env0 (length rs) rs env' b"
    and fin: "b \<or> length rs = length acts"
    by auto
  note inv = loop_state_invariant [OF ls]
  have tk: "execute_actions svc sid (take (length rs) acts) 0 [] env0 = (rs, env')"
    using execute_actions_take [OF assms] by simp
  show ?thesis
    using ls fin inv tk by auto
qed

text \<open>
  C4.  At every state of the execution loop the number of step results equals the
  number of actions started and is at most the number of actions of the plan, no step
  result but the last has status FAILED, and the loop has stopped early exactly when
  the last step result is FAILED.  The loop ends in such a state, stopped early or with
  one result per action; so at termination there are at most as many step results as
  actions, and if there are fewer, the last one is FAILED.  The outcome is the outcome
  of running only the actions that have a step result: no later action is attempted.
  The same bounds hold for the session that \<open>_execute_plan\<close> registers.
\<close>

theorem execution_is_fail_fast:
  fixes svc :: "('e, 'o) Collaborators"
  shows "(loop_state svc sid acts env0 i rs env b \<longrightarrow>
        length rs \<le> length acts \<and> length rs = i
        \<and> (\<forall>k. Suc k < length rs \<longrightarrow> status (rs ! k) \<noteq> FAILED)
        \<and> b = (rs \<noteq> [] \<and> status (last rs) = FAILED))
     \<and> (execute_actions svc sid acts 0 [] env0 = (rs', env') \<longrightarrow>
        (\<exists>b'. loop_state svc sid acts env0 (length rs') rs' env' b'
               \<and> (b' \<or> length rs' = length acts))
        \<and> length rs' \<le> length acts
        \<and> (length rs' < length acts \<longrightarrow> rs' \<noteq> [] \<and> status (last rs') = FAILED)
        \<and> (\<forall>k. Suc k < length rs' \<longrightarrow> status (rs' ! k) \<noteq> FAILED)
        \<and> execute_actions svc sid (take (length rs') acts) 0 [] env0 = (rs', env'))
     \<and> (active_sessions new_id = None
        \<and> execute_plan svc cache active_sessions pid new_id env0 = (out, sessions', env'')
        \<and> sessions' new_id = Some s \<longrightarrow>
        length (step_results s) \<le> length (actions (session_plan s))
        \<and> (length (step_results s) < length (actions (session_plan s)) \<longrightarrow>
             step_results s \<noteq> [] \<and> status (last (step_results s)) = FAILED))"
proof -
  have p1: "length rs \<le> length acts \<and> length rs = i
        \<and> (\<forall>k. Suc k < length rs \<longrightarrow> status (rs ! k) \<noteq> FAILED)
        \<and> b = (rs \<noteq> [] \<and> status (last rs) = FAILED)"
    if "loop_state svc sid acts env0 i rs env b"
    using loop_state_invariant [OF that] by simp
  have p3: "length (step_results s) \<le> length (actions (session_plan s))
        \<and> (length (step_results s) < length (actions (session_plan s)) \<longrightarrow>
             step_results s \<noteq> [] \<and> status (last (step_results s)) = FAILED)"
    if f: "active_sessions new_id = None"
      and r: "execute_plan svc cache active_sessions pid new_id env0 = (out, sessions', env'')"
      and g: "sessions' new_id = Some s"
  proof -
    from execute_plan_session [OF f r g] obtain env1 where
      sr: "step_results s = fst (execute_actions svc new_id (actions (session_plan s)) 0 [] env1)"
      by auto
    obtain rs2 env2 where
      ex: "execute_actions svc new_id (actions (session_plan s)) 0 [] env1 = (rs2, env2)"
      by (cases "execute_actions svc new_id (actions (session_plan s)) 0 [] env1")
    from execute_actions_terminal [OF ex] sr ex show ?thesis by simp
  qed
  show ?thesis
    using p1 execute_actions_terminal [of svc sid acts env0 rs' env'] p3 by blast
qed

lemma execute_action_skill:
  assumes "dict_get (parameters action) ''skill_name'' = Some skill_name"
  shows "execute_action svc action sid i env =
     (\<lparr>step_id = sid @ ''_'' @ str_nat i, status = FAILED,
       error_message = Some (''name '' @ [CHR 0x27] @ ''SkillParameters'' @ [CHR 0x27] @ '' is not defined''),
       step_output = None\<rparr>, env)"
  using assms by (simp add: execute_action_def services_SkillParameters_def)

theorem execution_is_fail_fast_witness:
  "execute_actions
     \<lparr>execute_skill = (\<lambda>name params t (calls :: nat).
         (Inr \<lparr>success = True, sr_error = None, sr_data = []\<rparr>, calls + 1)),
       get_current_observation = (\<lambda>calls. (Inr (), calls))\<rparr>
     ''s1''
     [\<lparr>action_type = ActionType.SCREENSHOT, parameters = [],
       description = ''Capture'', timeout = 5\<rparr>,
      \<lparr>action_type = ActionType.SCREENSHOT,
       parameters = [(''skill_name'', PStr ''open_app''),
                     (''skill_parameters'', PDict [(''app_name'', PStr ''Notepad'')])],
       description = ''Ouverture'', timeout = 5\<rparr>,
      \<lparr>action_type = ActionType.WAIT, parameters = [(''duration'', PFloat 2)],
       description = ''Attente'', timeout = 5\<rparr>]
     0 [] 0
   = ([\<lparr>step_id = ''s1_0'', status = SKIPPED,
        error_message = Some (''Actions primitives non impl'' @ [CHR 0xE9] @ ''ment'' @ [CHR 0xE9] @ ''es''),
        step_output = None\<rparr>,
       \<lparr>step_id = ''s1_1'', status = FAILED,
        error_message = Some (''name '' @ [CHR 0x27] @ ''SkillParameters'' @ [CHR 0x27] @ '' is not defined''),
        step_output = None\<rparr>], 0)
   \<and> status (last
       [\<lparr>step_id = ''s1_0'', status = SKIPPED,
        error_message = Some (''Actions primitives non impl'' @ [CHR 0xE9] @ ''ment'' @ [CHR 0xE9] @ ''es''),
        step_output = None\<rparr>,
       \<lparr>step_id = ''s1_1'', status = FAILED,
        error_message = Some (''name '' @ [CHR 0x27] @ ''SkillParameters'' @ [CHR 0x27] @ '' is not defined''),
        step_output = None\<rparr>]) = FAILED"
proof -
  let ?svc = "\<lparr>execute_skill = (\<lambda>name params t (calls :: nat).
         (Inr \<lparr>success = True, sr_error = None, sr_data = []\<rparr>, calls + 1)),
       get_current_observation = (\<lambda>calls. (Inr (), calls))\<rparr>"
  let ?acts = "[\<lparr>action_type = ActionType.SCREENSHOT, parameters = [],
       description = ''Capture'', timeout = 5\<rparr>,
      \<lparr>action_type = ActionType.SCREENSHOT,
       parameters = [(''skill_name'', PStr ''open_app''),
                     (''skill_parameters'', PDict [(''app_name'', PStr ''Notepad'')])],
       description = ''Ouverture'', timeout = 5\<rparr>,
      \<lparr>action_type = ActionType.WAIT, parameters = [(''duration'', PFloat 2)],
       description = ''Attente'', timeout = 5\<rparr>]"
  let ?rs = "[\<lparr>step_id = ''s1_0'', status = SKIPPED,
        error_message = Some (''Actions primitives non impl'' @ [CHR 0xE9] @ ''ment'' @ [CHR 0xE9] @ ''es''),
        step_output = None\<rparr>,
       \<lparr>step_id = ''s1_1'', status = FAILED,
        error_message = Some (''name '' @ [CHR 0x27] @ ''SkillParameters'' @ [CHR 0x27] @ '' is not defined''),
        step_output = None\<rparr>]"
  have run: "execute_actions ?svc ''s1'' ?acts 0 [] 0 = (?rs, 0)"
    by (simp add: execute_action_skipped execute_action_skill dict_get_def str_nat_digits)
  have short: "length ?rs < length ?acts" by simp
  from execution_is_fail_fast [of ?svc "''s1''" ?acts 0 0 "[]" 0 False ?rs 0] run short
  have "status (last ?rs) = FAILED" by blast
  with run show ?thesis by blast
qed

lemma execute_actions_all_skipped:
  assumes "\<forall>a \<in> set acts. dict_get (parameters a) ''skill_name'' = None"
  shows "\<exists>rs'. execute_actions svc sid acts i rs env = (rs @ rs', env)
     \<and> length rs' = length acts \<and> (\<forall>r \<in> set rs'. status r = SKIPPED)"
  using assms
proof (induction acts arbitrary: i rs)
  case Nil
  then show ?case by simp
next
  case (Cons a acts)
  let ?r = "\<lparr>step_id = sid @ ''_'' @ str_nat i, status = SKIPPED,
       error_message = Some (''Actions primitives non impl'' @ [CHR 0xE9] @ ''ment'' @ [CHR 0xE9] @ ''es''), step_output = None\<rparr>"
  have st: "execute_action svc a sid i env = (?r, env)"
    using Cons.prems by (simp add: execute_action_skipped)
  from Cons.prems have "\<forall>a \<in> set acts. dict_get (parameters a) ''skill_name'' = None" by simp
  from Cons.IH [OF this, of "Suc i" "rs @ [?r]"] obtain rs' where
    r: "execute_actions svc sid acts (Suc i) (rs @ [?r]) env = ((rs @ [?r]) @ rs', env)"
    and l: "length rs' = length acts" and s: "\<forall>r \<in> set rs'. status r = SKIPPED"
    by blast
  have "execute_actions svc sid (a # acts) i rs env = (rs @ (?r # rs'), env)"
    using st r by simp
  moreover have "length (?r # rs') = length (a # acts)" using l by simp
  moreover have "\<forall>r \<in> set (?r # rs'). status r = SKIPPED" using s by simp
  ultimately show ?case by blast
qed

lemma success_rate_no_success:
  assumes "\<forall>r \<in> set rs. status r \<noteq> SUCCESS"
  shows "success_rate rs = 0"
proof -
  have "filter (\<lambda>r. status r = SUCCESS) rs = []"
    using assms by (simp add: filter_empty_conv)
  then show ?thesis by (simp add: success_rate_def)
qed

lemma execute_plan_all_skipped:
  fixes svc :: "('e, 'o) Collaborators"
  assumes c: "cache pid = Some plan"
    and prim: "\<forall>a \<in> set (actions plan). dict_get (parameters a) ''skill_name'' = None"
    and o1: "get_current_observation svc env = (Inr obs1, env1)"
    and o2: "get_current_observation svc env1 = (Inr obs2, env2)"
  shows "\<exists>res s. execute_plan svc cache active_sessions pid new_id env
            = (Inr res, active_sessions(new_id \<mapsto> s), env2)
          \<and> \<not> er_success res \<and> er_success_rate res = 0
          \<and> er_steps_completed res = length (actions plan)
          \<and> session_status s = FAILED
          \<and> length (step_results s) = length (actions plan)
          \<and> (\<forall>r \<in> set (step_results s). status r = SKIPPED)"
proof -
  from execute_actions_all_skipped [OF prim, of svc new_id 0 "[]" env1] obtain rs where
    run: "execute_actions svc new_id (actions plan) 0 [] env1 = (rs, env1)"
    and len: "length rs = length (actions plan)"
    and sk: "\<forall>r \<in> set rs. status r = SKIPPED"
    by auto
  from sk have "\<forall>r \<in> set rs. status r \<noteq> SUCCESS" by simp
  then have rate: "success_rate rs = 0" by (rule success_rate_no_success)
  let ?s = "\<lparr>session_id = new_id, session_plan = plan, session_status = FAILED,
             step_results = rs, initial_observation = Some obs1, final_observation = Some obs2\<rparr>"
  let ?res = "\<lparr>er_success = False, er_session_id = new_id,
               er_message = ''Ex'' @ [CHR 0xE9] @ ''cution '' @ [CHR 0xE9] @ ''chou'' @ [CHR 0xE9] @ ''e'',
               er_success_rate = 0, er_steps_completed = length (actions plan)\<rparr>"
  have "execute_plan svc cache active_sessions pid new_id env
            = (Inr ?res, active_sessions(new_id \<mapsto> ?s), env2)"
    using c o1 o2 run rate len by (simp add: execute_plan_def Let_def)
  moreover have "\<not> er_success ?res \<and> er_success_rate ?res = 0
          \<and> er_steps_completed ?res = length (actions plan)
          \<and> session_status ?s = FAILED
          \<and> length (step_results ?s) = length (actions plan)
          \<and> (\<forall>r \<in> set (step_results ?s). status r = SKIPPED)"
    using len sk by simp
  ultimately show ?thesis by blast
qed

lemma success_rate_skipped_step:
  assumes "status r = SKIPPED"
  shows "success_rate (rs @ [r]) =
     real (length (filter (\<lambda>x. status x = SUCCESS) rs)) / (real (length rs) + 1)"
  using assms by (simp add: success_rate_def add.commute)

text \<open>
  C10.  An action whose parameters have no \<open>skill_name\<close> entry gives a step result
  with status SKIPPED, whatever the skill executor is, and leaves the state of the
  desktop unchanged: nothing is dispatched.  The loop goes on to the next action after
  it.  A SKIPPED step adds one to the number of steps and nothing to the number of
  successes of the success rate.  Hence a plan made only of such actions, when both
  observations succeed, ends with one SKIPPED step result per action, success rate 0
  and session status FAILED, although no step has status FAILED.
\<close>

theorem primitive_actions_are_skipped:
  fixes svc :: "('e, 'o) Collaborators"
  shows "(dict_get (parameters action) ''skill_name'' = None \<longrightarrow>
        execute_action svc action sid i env =
          (\<lparr>step_id = sid @ ''_'' @ str_nat i, status = SKIPPED,
            error_message = Some (''Actions primitives non impl'' @ [CHR 0xE9] @ ''ment'' @ [CHR 0xE9] @ ''es''),
            step_output = None\<rparr>, env)
        \<and> execute_actions svc sid (action # rest) i rs env =
          execute_actions svc sid rest (Suc i)
            (rs @ [\<lparr>step_id = sid @ ''_'' @ str_nat i, status = SKIPPED,
                    error_message = Some (''Actions primitives non impl'' @ [CHR 0xE9] @ ''ment'' @ [CHR 0xE9] @ ''es''),
                    step_output = None\<rparr>]) env)
     \<and> (status r = SKIPPED \<longrightarrow>
        success_rate (rs @ [r]) =
          real (length (filter (\<lambda>x. status x = SUCCESS) rs)) / (real (length rs) + 1))
     \<and> (cache pid = Some plan
        \<and> (\<forall>a \<in> set (actions plan). dict_get (parameters a) ''skill_name'' = None)
        \<and> get_current_observation svc env = (Inr obs1, env1)
        \<and> get_current_observation svc env1 = (Inr obs2, env2) \<longrightarrow>
        (\<exists>res s. execute_plan svc cache active_sessions pid new_id env
                    = (Inr res, active_sessions(new_id \<mapsto> s), env2)
          \<and> \<not> er_success res \<and> er_success_rate res = 0
          \<and> er_steps_completed res = length (actions plan)
          \<and> session_status s = FAILED
          \<and> length (step_results s) = length (actions plan)
          \<and> (\<forall>r \<in> set (step_results s). status r = SKIPPED)))"
proof -
  have p1: "execute_action svc action sid i env =
          (\<lparr>step_id = sid @ ''_'' @ str_nat i, status = SKIPPED,
            error_message = Some (''Actions primitives non impl'' @ [CHR 0xE9] @ ''ment'' @ [CHR 0xE9] @ ''es''),
            step_output = None\<rparr>, env)
        \<and> execute_actions svc sid (action # rest) i rs env =
          execute_actions svc sid rest (Suc i)
            (rs @ [\<lparr>step_id = sid @ ''_'' @ str_nat i, status = SKIPPED,
                    error_message = Some (''Actions primitives non impl'' @ [CHR 0xE9] @ ''ment'' @ [CHR 0xE9] @ ''es''),
                    step_output = None\<rparr>]) env"
    if "dict_get (parameters action) ''skill_name'' = None"
    using execute_action_skipped [OF that, of svc sid i env] by simp
  have p2: "status r = SKIPPED \<longrightarrow>
        success_rate (rs @ [r]) =
          real (length (filter (\<lambda>x. status x = SUCCESS) rs)) / (real (length rs) + 1)"
    using success_rate_skipped_step [of r rs] by blast
  have p3: "\<exists>res s. execute_plan svc cache active_sessions pid new_id env
                    = (Inr res, active_sessions(new_id \<mapsto> s), env2)
          \<and> \<not> er_success res \<and> er_success_rate res = 0
          \<and> er_steps_completed res = length (actions plan)
          \<and> session_status s = FAILED
          \<and> length (step_results s) = length (actions plan)
          \<and> (\<forall>r \<in> set (step_results s). status r = SKIPPED)"
    if "cache pid = Some plan"
      "\<forall>a \<in> set (actions plan). dict_get (parameters a) ''skill_name'' = None"
      "get_current_observation svc env = (Inr obs1, env1)"
      "get_current_observation svc env1 = (Inr obs2, env2)"
    using that by (rule execute_plan_all_skipped)
  show ?thesis
    using p1 p2 p3 by blast
qed

theorem primitive_actions_are_skipped_witness:
  "\<exists>res s.
     execute_plan
       \<lparr>execute_skill = (\<lambda>name params t (calls :: nat).
           (Inr \<lparr>success = True, sr_error = None, sr_data = []\<rparr>, calls + 1)),
         get_current_observation = (\<lambda>calls. (Inr (), calls))\<rparr>
       (Map.empty(''plan-1'' \<mapsto>
          \<lparr>plan_id = ''plan-1'',
            intent = \<lparr>intent_type = IntentType.OPEN_APP, confidence = 0.95,
                      slots = [(''app_name'', PStr ''Notepad'')], original_text = ''open notepad'',
                      normalized_text = None\<rparr>,
            actions =
              [\<lparr>action_type = ActionType.SCREENSHOT, parameters = [],
                description = ''Capture d'' @ [CHR 0x27, CHR 0xE9] @ ''tat initial'', timeout = 5\<rparr>,
               \<lparr>action_type = ActionType.WAIT, parameters = [(''duration'', PFloat 2)],
                description = ''Attente du lancement de l'' @ [CHR 0x27] @ ''application'', timeout = 5\<rparr>],
            summary = ''Ouvrir l'' @ [CHR 0x27] @ ''application Notepad (en 3 '' @ [CHR 0xE9] @ ''tapes)'',
            requires_confirmation = False, estimated_duration = 3, risk_level = ''low''\<rparr>))
       Map.empty ''plan-1'' ''session-1'' 0
     = (Inr res, Map.empty(''session-1'' \<mapsto> s), 0)
     \<and> \<not> er_success res \<and> er_steps_completed res = 2 \<and> session_status s = FAILED
     \<and> (\<forall>r \<in> set (step_results s). status r = SKIPPED)"
proof -
  let ?svc = "\<lparr>execute_skill = (\<lambda>name params t (calls :: nat).
           (Inr \<lparr>success = True, sr_error = None, sr_data = []\<rparr>, calls + 1)),
         get_current_observation = (\<lambda>calls. (Inr (), calls))\<rparr>"
  let ?plan = "\<lparr>plan_id = ''plan-1'',
            intent = \<lparr>intent_type = IntentType.OPEN_APP, confidence = 0.95,
                      slots = [(''app_name'', PStr ''Notepad'')], original_text = ''open notepad'',
                      normalized_text = None\<rparr>,
            actions =
              [\<lparr>action_type = ActionType.SCREENSHOT, parameters = [],
                description = ''Capture d'' @ [CHR 0x27, CHR 0xE9] @ ''tat initial'', timeout = 5\<rparr>,
               \<lparr>action_type = ActionType.WAIT, parameters = [(''duration'', PFloat 2)],
                description = ''Attente du lancement de l'' @ [CHR 0x27] @ ''application'', timeout = 5\<rparr>],
            summary = ''Ouvrir l'' @ [CHR 0x27] @ ''application Notepad (en 3 '' @ [CHR 0xE9] @ ''tapes)'',
            requires_confirmation = False, estimated_duration = 3, risk_level = ''low''\<rparr>"
  let ?cache = "Map.empty(''plan-1'' \<mapsto> ?plan)"
  have h: "?cache ''plan-1'' = Some ?plan
        \<and> (\<forall>a \<in> set (actions ?plan). dict_get (parameters a) ''skill_name'' = None)
        \<and> get_current_observation ?svc 0 = (Inr (), 0)
        \<and> get_current_observation ?svc 0 = (Inr (), 0)"
    by (simp add: dict_get_def)
  have l: "length (actions ?plan) = 2" by simp
  from primitive_actions_are_skipped
    [where svc = ?svc and cache = ?cache and pid = "''plan-1''" and plan = ?plan and env = 0
       and ?obs1.0 = "()" and ?env1.0 = 0 and ?obs2.0 = "()" and ?env2.0 = 0
       and active_sessions = Map.empty and new_id = "''session-1''"] h
  obtain res s where
    "execute_plan ?svc ?cache Map.empty ''plan-1'' ''session-1'' 0
       = (Inr res, Map.empty(''session-1'' \<mapsto> s), 0)"
    "\<not> er_success res" "er_steps_completed res = length (actions ?plan)"
    "session_status s = FAILED" "\<forall>r \<in> set (step_results s). status r = SKIPPED"
    by blast
  with l show ?thesis by auto
qed

end
